theory Spec2Isabelle
  imports Main "HOL-Library.Word"
begin

section \<open>The audio relay of \<^verbatim>\<open>src/server.js\<close>\<close>

text \<open>
  One WebSocket connection of a client owns one closure of \<^verbatim>\<open>wss.on("connection", ...)\<close>.
  The closure's variables are the fields of the record \<open>session\<close> below; every handler
  of the closure becomes a function from session to session.

  Modelling decisions, each visible in the definitions:
  \<^item> \<^verbatim>\<open>openaiWs\<close> is either \<^verbatim>\<open>null\<close> or a socket object: the field \<open>openaiWs\<close> is \<open>True\<close>
    when a socket object is held, and \<open>readyState\<close> is the \<^verbatim>\<open>readyState\<close> of that socket.
    \<^verbatim>\<open>new WebSocket(...)\<close> returns a socket that is still connecting; it opens later,
    with the event \<^verbatim>\<open>open\<close>.
  \<^item> \<^verbatim>\<open>openaiWs.send(JSON.stringify(m))\<close> is the \<^verbatim>\<open>send\<close> of the \<^verbatim>\<open>ws\<close> library: on an open
    socket it hands \<open>m\<close> over, which appends \<open>m\<close> to the trace \<open>toOpenAI\<close> of what the
    remote peer is sent, oldest first; on a socket that is still connecting it throws; on
    a socket that is closing or closed it returns and the message is discarded. On
    \<^verbatim>\<open>null\<close> the call throws as well.
  \<^item> An exception leaves the rest of its \<^verbatim>\<open>try\<close> body undone: a block of statements yields
    an \<open>outcome\<close>, the session as the block leaves it together with whether it returned
    or threw, and the \<^verbatim>\<open>catch\<close> is a case of the function that has the \<^verbatim>\<open>try\<close>.
  \<^item> \<^verbatim>\<open>ws.send(JSON.stringify(m))\<close> appends \<open>m\<close> to \<open>toClient\<close>, the trace of what is handed to
    the client's socket. That socket reaches the handler open and is never connecting,
    so this call does not throw.
  \<^item> Base64 is a wire encoding only: a message that carries audio is modelled with the
    bytes themselves.
  \<^item> \<^verbatim>\<open>Date.now()\<close> is an input of the handler that reads it (an \<open>int\<close>, milliseconds).
  \<^item> \<^verbatim>\<open>setTimeout\<close> in \<^verbatim>\<open>stopSession\<close> adds one pending timer; its callback is the
    handler \<open>onStopTimeout\<close>.
  \<^item> Whether the constructor \<^verbatim>\<open>new WebSocket(...)\<close> of line 69 throws is a fact of the
    process (its arguments are constants): the field \<open>constructorThrows\<close>.
  \<^item> \<^verbatim>\<open>console.log\<close> and \<^verbatim>\<open>console.error\<close> of this file are not modelled: they change no
    variable of the closure and reach neither peer.
  \<^item> The registry \<^verbatim>\<open>connections\<close> is written and never read by the code; it is left out.
\<close>

type_synonym byte = "8 word"

subsection \<open>Audio configuration (lines 7 to 15)\<close>

definition SAMPLE_RATE :: nat where "SAMPLE_RATE = 24000"
definition CHANNELS :: nat where "CHANNELS = 1"
definition BITS :: nat where "BITS = 16"
definition CHUNK_MS :: nat where "CHUNK_MS = 500"
definition BYTES_PER_SAMPLE :: nat where "BYTES_PER_SAMPLE = BITS div 8"
definition BYTES_PER_SECOND :: nat where
  "BYTES_PER_SECOND = SAMPLE_RATE * BYTES_PER_SAMPLE * CHANNELS"

text \<open>
  \<^verbatim>\<open>Math.floor(BYTES_PER_SECOND * (CHUNK_MS / 1000))\<close>, \<^verbatim>\<open>Math.floor(BYTES_PER_SECOND * 0.2)\<close>
  and \<^verbatim>\<open>Math.floor(BYTES_PER_SECOND * 0.1)\<close> are computed in double precision; for these
  constants the products round to 24000, 9600 and 4800, which is what the integer
  divisions below give.
\<close>

definition CHUNK_BYTES :: nat where
  "CHUNK_BYTES = (BYTES_PER_SECOND * CHUNK_MS) div 1000"
definition MIN_BUFFER_SIZE :: nat where
  "MIN_BUFFER_SIZE = (BYTES_PER_SECOND * 2) div 10"
definition minRequiredBytes :: nat where
  "minRequiredBytes = BYTES_PER_SECOND div 10"

subsection \<open>Messages\<close>

text \<open>What the server sends to the remote peer (the \<^verbatim>\<open>type\<close> of each JSON object).\<close>

datatype openai_msg =
    SessionUpdate
  | InputAudioBufferAppend "byte list"
  | InputAudioBufferCommit
  | ResponseCreate

text \<open>
  What the server sends to the client. The payload types are parameters: this file
  forwards the remote event's fields as they are (a field may be absent), the server
  of \<^verbatim>\<open>src/unnamed/part_001\<close> sends a byte array and the accumulated text.
\<close>

datatype ('audio, 'text) client_msg =
    SessionReady
  | TranslatedAudio 'audio
  | Translation 'text
  | SpeechStartedMsg
  | SpeechStoppedMsg
  | SessionStopped
  | ErrorMsg string

text \<open>
  What the remote peer sends, after \<^verbatim>\<open>JSON.parse\<close>: one constructor per \<^verbatim>\<open>case\<close> of the
  \<^verbatim>\<open>switch\<close>, \<open>OtherEvent\<close> for a type with no case, \<open>Unparsable\<close> for data on which
  \<^verbatim>\<open>JSON.parse\<close> throws. \<open>ErrorEvent None\<close> is an error event without an \<^verbatim>\<open>error\<close> object.
\<close>

datatype openai_event =
    ResponseCreated
  | ResponseAudioDelta "string option"
  | ResponseTranscriptDelta "string option"
  | ResponseDone
  | SpeechStarted
  | SpeechStopped
  | ErrorEvent "string option"
  | OtherEvent string
  | Unparsable

text \<open>
  What the client sends. \<open>Malformed e\<close> is a message on which the \<^verbatim>\<open>try\<close> body of the
  handler throws before it dispatches (\<^verbatim>\<open>JSON.parse\<close> fails, or the parsed value is
  \<^verbatim>\<open>null\<close>), \<open>e\<close> being the thrown error's \<^verbatim>\<open>message\<close>. \<open>Data\<close> is a parsed object: its
  \<^verbatim>\<open>type\<close> (a missing type, or one that is not a string, is one more string that is none
  of the three the handler knows), its \<^verbatim>\<open>sessionId\<close> and its \<^verbatim>\<open>audio\<close>.

  The client sends \<^verbatim>\<open>audio\<close> as an array of bytes. The handlers do two things with the
  field: they test it for truth (\<^verbatim>\<open>part_001\<close>, line 706) and they pass it to
  \<^verbatim>\<open>Buffer.from\<close>. \<open>Audio bs\<close> is a truthy value that \<^verbatim>\<open>Buffer.from\<close> turns into the bytes
  \<open>bs\<close> (an array, the empty array as well, or a string that is not empty);
  \<open>EmptyString\<close> is the empty string, falsy, and an empty buffer for \<^verbatim>\<open>Buffer.from\<close>;
  \<open>NoAudio\<close> is a falsy value on which \<^verbatim>\<open>Buffer.from\<close> throws (a missing field, \<^verbatim>\<open>null\<close>,
  \<^verbatim>\<open>0\<close>, \<^verbatim>\<open>false\<close>); \<open>BadAudio\<close> is a truthy value on which it throws (another number, an
  object that is no array).
\<close>

datatype audio_field = NoAudio | EmptyString | BadAudio | Audio "byte list"

fun truthy :: "audio_field \<Rightarrow> bool" where
  "truthy NoAudio = False"
| "truthy EmptyString = False"
| "truthy BadAudio = True"
| "truthy (Audio bs) = True"

text \<open>\<^verbatim>\<open>Buffer.from\<close>: \<open>None\<close> when it throws.\<close>

fun bufferFrom :: "audio_field \<Rightarrow> byte list option" where
  "bufferFrom NoAudio = None"
| "bufferFrom EmptyString = Some []"
| "bufferFrom BadAudio = None"
| "bufferFrom (Audio bs) = Some bs"

record client_data =
  mtype :: string
  sessionId :: string
  audio :: audio_field

datatype client_in = Malformed string | Data client_data

subsection \<open>The closure's variables\<close>

datatype ready_state = CONNECTING | OPEN | CLOSING | CLOSED

record session =
  openaiWs :: bool
  readyState :: ready_state
  isSessionActive :: bool
  responseInProgress :: bool
  audioBuffer :: "byte list"
  lastCommitTime :: int
  totalAudioSent :: nat
  toOpenAI :: "openai_msg list"
  toClient :: "(string option, string option) client_msg list"
  stopTimers :: nat
  constructorThrows :: bool

definition newSession :: session where
  "newSession = \<lparr> openaiWs = False, readyState = CLOSED, isSessionActive = False,
     responseInProgress = False, audioBuffer = [], lastCommitTime = 0, totalAudioSent = 0,
     toOpenAI = [], toClient = [], stopTimers = 0, constructorThrows = False \<rparr>"

text \<open>
  A block of statements either returns or throws; in both cases it leaves a session
  behind. \<open>andThen\<close> is the sequencing of two blocks: the second is skipped when the first
  has thrown.
\<close>

datatype outcome = Returned session | Threw session

fun sessionOf :: "outcome \<Rightarrow> session" where
  "sessionOf (Returned s) = s"
| "sessionOf (Threw s) = s"

fun andThen :: "outcome \<Rightarrow> (session \<Rightarrow> outcome) \<Rightarrow> outcome" where
  "andThen (Returned s) f = f s"
| "andThen (Threw s) f = Threw s"

text \<open>\<^verbatim>\<open>openaiWs.send(JSON.stringify(m))\<close>.\<close>

definition openaiSend :: "openai_msg \<Rightarrow> session \<Rightarrow> outcome" where
  "openaiSend m s =
     (if \<not> openaiWs s then Threw s
      else case readyState s of
        CONNECTING \<Rightarrow> Threw s
      | OPEN \<Rightarrow> Returned (s\<lparr>toOpenAI := toOpenAI s @ [m]\<rparr>)
      | CLOSING \<Rightarrow> Returned s
      | CLOSED \<Rightarrow> Returned s)"

text \<open>\<^verbatim>\<open>openaiWs.close()\<close>, where the code has tested that \<^verbatim>\<open>openaiWs\<close> is not \<^verbatim>\<open>null\<close>.\<close>

definition closeSocket :: "session \<Rightarrow> session" where
  "closeSocket s =
     (if openaiWs s \<and> readyState s \<noteq> CLOSED then s\<lparr>readyState := CLOSING\<rparr> else s)"

definition wsSend :: "(string option, string option) client_msg \<Rightarrow> session \<Rightarrow> session" where
  "wsSend m s = s\<lparr>toClient := toClient s @ [m]\<rparr>"

subsection \<open>\<^verbatim>\<open>streamAudioToOpenAI\<close> (lines 208 to 301)\<close>

text \<open>
  The \<^verbatim>\<open>while\<close> loop of lines 221 to 236: one iteration slices the first \<open>CHUNK_BYTES\<close>
  bytes off the buffer, sends them and adds \<open>CHUNK_BYTES\<close> to the counter. The buffer is
  cut (line 223) before the send (line 226): when the send throws, the frame is in
  neither.
\<close>

function sendChunks :: "session \<Rightarrow> outcome" where
  "sendChunks s =
     (if length (audioBuffer s) \<ge> CHUNK_BYTES then
        (case openaiSend (InputAudioBufferAppend (take CHUNK_BYTES (audioBuffer s)))
                (s\<lparr>audioBuffer := drop CHUNK_BYTES (audioBuffer s)\<rparr>) of
           Threw t \<Rightarrow> Threw t
         | Returned t \<Rightarrow> sendChunks (t\<lparr>totalAudioSent := totalAudioSent t + CHUNK_BYTES\<rparr>))
      else Returned s)"
  by pat_completeness auto
termination
  by (relation "measure (\<lambda>s. length (audioBuffer s))")
     (auto simp: openaiSend_def CHUNK_BYTES_def BYTES_PER_SECOND_def SAMPLE_RATE_def
        BYTES_PER_SAMPLE_def BITS_def CHANNELS_def CHUNK_MS_def
        split: if_splits ready_state.splits)

declare sendChunks.simps [simp del]

text \<open>Lines 245 to 256: "Send any remaining data".\<close>

definition sendRemaining :: "session \<Rightarrow> outcome" where
  "sendRemaining s =
     (if length (audioBuffer s) > 0 then
        andThen (openaiSend (InputAudioBufferAppend (audioBuffer s)) s)
          (\<lambda>t. Returned (t\<lparr>totalAudioSent := totalAudioSent t + length (audioBuffer t),
                            audioBuffer := []\<rparr>))
      else Returned s)"

text \<open>Lines 258 to 278: commit, and reset the counter, only if enough audio was sent.\<close>

definition commitIfEnough :: "session \<Rightarrow> outcome" where
  "commitIfEnough s =
     (if totalAudioSent s \<ge> minRequiredBytes then
        andThen (openaiSend InputAudioBufferCommit s) (\<lambda>t. Returned (t\<lparr>totalAudioSent := 0\<rparr>))
      else Returned s)"

text \<open>Lines 282 to 296: "Create response if not already in progress".\<close>

definition createResponse :: "session \<Rightarrow> outcome" where
  "createResponse s =
     (if \<not> responseInProgress s then
        andThen (openaiSend ResponseCreate s) (\<lambda>t. Returned (t\<lparr>responseInProgress := True\<rparr>))
      else Returned s)"

text \<open>Lines 238 to 297: the auto-commit block, \<open>now\<close> being \<^verbatim>\<open>Date.now()\<close>.\<close>

definition autoCommitBlock :: "int \<Rightarrow> session \<Rightarrow> outcome" where
  "autoCommitBlock now s =
     (if length (audioBuffer s) \<ge> MIN_BUFFER_SIZE \<and> now - lastCommitTime s > 2000 then
        andThen (sendRemaining s)
          (\<lambda>s1. andThen (commitIfEnough s1)
            (\<lambda>s2. createResponse (s2\<lparr>lastCommitTime := now\<rparr>)))
      else Returned s)"

text \<open>The session as the auto-commit block leaves it, whether it returns or throws.\<close>

definition autoCommit :: "int \<Rightarrow> session \<Rightarrow> session" where
  "autoCommit now s = sessionOf (autoCommitBlock now s)"

text \<open>
  The whole function. \<^verbatim>\<open>Buffer.from(audioData)\<close> is the first statement of the \<^verbatim>\<open>try\<close>:
  when it throws, nothing has changed. The \<^verbatim>\<open>catch\<close> of lines 298 to 300 only logs, so
  the function leaves the session as the \<^verbatim>\<open>try\<close> body has left it.
\<close>

definition streamAudioToOpenAI :: "int \<Rightarrow> audio_field \<Rightarrow> session \<Rightarrow> session" where
  "streamAudioToOpenAI now audioData s =
     (if \<not> openaiWs s \<or> \<not> isSessionActive s then s
      else case bufferFrom audioData of
        None \<Rightarrow> s
      | Some newData \<Rightarrow>
          sessionOf (andThen (sendChunks (s\<lparr>audioBuffer := audioBuffer s @ newData\<rparr>))
                       (autoCommitBlock now)))"

subsection \<open>\<^verbatim>\<open>stopSession\<close> (lines 303 to 363)\<close>

text \<open>
  The final flush does not empty \<^verbatim>\<open>audioBuffer\<close> and the final commit does not reset
  \<^verbatim>\<open>totalAudioSent\<close>: the source has no such assignment on this path.
\<close>

definition sendFinal :: "session \<Rightarrow> outcome" where
  "sendFinal s =
     (if length (audioBuffer s) > 0 then
        andThen (openaiSend (InputAudioBufferAppend (audioBuffer s)) s)
          (\<lambda>t. Returned (t\<lparr>totalAudioSent := totalAudioSent t + length (audioBuffer t)\<rparr>))
      else Returned s)"

definition finalCommit :: "session \<Rightarrow> outcome" where
  "finalCommit s =
     (if totalAudioSent s \<ge> minRequiredBytes then openaiSend InputAudioBufferCommit s
      else Returned s)"

text \<open>
  The \<^verbatim>\<open>try\<close> body (flush, commit, timer, \<^verbatim>\<open>session_stopped\<close>) and the \<^verbatim>\<open>catch\<close> of lines 353
  to 361, which closes the socket and clears the three variables.
\<close>

definition stopSession :: "session \<Rightarrow> session" where
  "stopSession s =
     (if openaiWs s \<and> isSessionActive s then
        (case andThen (sendFinal s)
                (\<lambda>s1. andThen (finalCommit s1)
                  (\<lambda>s2. Returned (wsSend SessionStopped (s2\<lparr>stopTimers := stopTimers s2 + 1\<rparr>)))) of
           Returned t \<Rightarrow> t
         | Threw t \<Rightarrow>
             (closeSocket t)\<lparr>isSessionActive := False, responseInProgress := False,
                              openaiWs := False\<rparr>)
      else s)"

text \<open>The callback of the timer (lines 338 to 345), run when a pending timer fires.\<close>

definition onStopTimeout :: "session \<Rightarrow> session" where
  "onStopTimeout s =
     (if stopTimers s = 0 then s
      else if openaiWs s then
        (closeSocket s)\<lparr>stopTimers := stopTimers s - 1, isSessionActive := False,
          responseInProgress := False, openaiWs := False\<rparr>
      else s\<lparr>stopTimers := stopTimers s - 1\<rparr>)"

subsection \<open>\<^verbatim>\<open>initializeOpenAISession\<close> and the remote socket's handlers (lines 67 to 206)\<close>

text \<open>
  Line 69 assigns a new socket, still connecting, whatever \<^verbatim>\<open>openaiWs\<close> held before, and
  leaves \<^verbatim>\<open>isSessionActive\<close> as it is. When the constructor throws, the assignment does
  not happen and the \<^verbatim>\<open>catch\<close> of lines 197 to 205 answers the client.
\<close>

definition initializeOpenAISession :: "string \<Rightarrow> session \<Rightarrow> session" where
  "initializeOpenAISession sid s =
     (if constructorThrows s then
        wsSend (ErrorMsg ''Failed to initialize translation session'') s
      else s\<lparr>openaiWs := True, readyState := CONNECTING\<rparr>)"

text \<open>
  The handler of \<^verbatim>\<open>open\<close> (lines 79 to 114) has no \<^verbatim>\<open>try\<close>: when its send throws, the rest
  of the handler is not run.
\<close>

definition onOpenaiOpen :: "session \<Rightarrow> session" where
  "onOpenaiOpen s =
     (case openaiSend SessionUpdate s of
        Threw t \<Rightarrow> t
      | Returned t \<Rightarrow> wsSend SessionReady (t\<lparr>isSessionActive := True\<rparr>))"

text \<open>
  The \<^verbatim>\<open>switch\<close> of lines 120 to 175. In the \<^verbatim>\<open>error\<close> case the flag is cleared before
  \<^verbatim>\<open>message.error.message\<close> is read, so an event without an \<^verbatim>\<open>error\<close> object clears the
  flag and then throws into the \<^verbatim>\<open>catch\<close>, which sends nothing.
\<close>

fun onOpenaiMessage :: "openai_event \<Rightarrow> session \<Rightarrow> session" where
  "onOpenaiMessage ResponseCreated s = s\<lparr>responseInProgress := True\<rparr>"
| "onOpenaiMessage (ResponseAudioDelta a) s = wsSend (TranslatedAudio a) s"
| "onOpenaiMessage (ResponseTranscriptDelta t) s = wsSend (Translation t) s"
| "onOpenaiMessage ResponseDone s = s\<lparr>responseInProgress := False\<rparr>"
| "onOpenaiMessage SpeechStarted s = wsSend SpeechStartedMsg s"
| "onOpenaiMessage SpeechStopped s = wsSend SpeechStoppedMsg s"
| "onOpenaiMessage (ErrorEvent (Some e)) s =
     wsSend (ErrorMsg (''Translation error: '' @ e)) (s\<lparr>responseInProgress := False\<rparr>)"
| "onOpenaiMessage (ErrorEvent None) s = s\<lparr>responseInProgress := False\<rparr>"
| "onOpenaiMessage (OtherEvent t) s = s"
| "onOpenaiMessage Unparsable s = s"

definition onOpenaiClose :: "session \<Rightarrow> session" where
  "onOpenaiClose s = s\<lparr>isSessionActive := False, responseInProgress := False\<rparr>"

definition onOpenaiError :: "session \<Rightarrow> session" where
  "onOpenaiError s = wsSend (ErrorMsg ''OpenAI connection error'') (s\<lparr>responseInProgress := False\<rparr>)"

subsection \<open>The client socket's handlers (lines 42 to 65)\<close>

definition onClientMessage :: "int \<Rightarrow> client_in \<Rightarrow> session \<Rightarrow> session" where
  "onClientMessage now m s =
     (case m of
        Malformed e \<Rightarrow> wsSend (ErrorMsg e) s
      | Data d \<Rightarrow>
          if mtype d = ''init'' then initializeOpenAISession (sessionId d) s
          else if mtype d = ''audio'' \<and> openaiWs s \<and> isSessionActive s
            then streamAudioToOpenAI now (audio d) s
          else if mtype d = ''stop'' then stopSession s
          else s)"

definition onClientClose :: "session \<Rightarrow> session" where
  "onClientClose s = (if openaiWs s then stopSession s else s)"

subsection \<open>Events and runs of one session\<close>

text \<open>
  The events of the remote socket come in two kinds. \<open>OpenaiOpen\<close>, \<open>OpenaiClosing\<close>,
  \<open>OpenaiClose\<close> and \<open>OpenaiError\<close> are events of the socket that \<^verbatim>\<open>openaiWs\<close> holds: they
  change its \<^verbatim>\<open>readyState\<close> and then run the handler (a socket opens only while it is
  connecting; the library sets a socket to closing before it emits \<^verbatim>\<open>error\<close>; \<open>OpenaiClosing\<close>
  is the start of a close by the remote peer and has no handler). \<open>StaleOpen\<close>, \<open>StaleClose\<close>
  and \<open>StaleError\<close> are events of a socket that a later \<^verbatim>\<open>init\<close> or the timer has replaced
  in the variable: its handlers are the same closures, so they run on the same
  variables. A message runs the same handler from either kind of socket.
\<close>

datatype event =
    ClientMessage int client_in
  | ClientClose
  | OpenaiOpen
  | OpenaiMessage openai_event
  | OpenaiClosing
  | OpenaiClose
  | OpenaiError
  | StaleOpen
  | StaleClose
  | StaleError
  | StopTimeout

fun step :: "event \<Rightarrow> session \<Rightarrow> session" where
  "step (ClientMessage now m) s = onClientMessage now m s"
| "step ClientClose s = onClientClose s"
| "step OpenaiOpen s =
     (if openaiWs s \<and> readyState s = CONNECTING then onOpenaiOpen (s\<lparr>readyState := OPEN\<rparr>)
      else s)"
| "step (OpenaiMessage e) s = onOpenaiMessage e s"
| "step OpenaiClosing s = closeSocket s"
| "step OpenaiClose s =
     onOpenaiClose (if openaiWs s then s\<lparr>readyState := CLOSED\<rparr> else s)"
| "step OpenaiError s = onOpenaiError (closeSocket s)"
| "step StaleOpen s = onOpenaiOpen s"
| "step StaleClose s = onOpenaiClose s"
| "step StaleError s = onOpenaiError s"
| "step StopTimeout s = onStopTimeout s"

fun run :: "event list \<Rightarrow> session \<Rightarrow> session" where
  "run [] s = s"
| "run (e # es) s = run es (step e s)"

text \<open>The audio bytes of a trace: the payloads of its append messages, in order.\<close>

fun audioOf :: "openai_msg list \<Rightarrow> byte list" where
  "audioOf [] = []"
| "audioOf (InputAudioBufferAppend bs # ms) = bs @ audioOf ms"
| "audioOf (m # ms) = audioOf ms"

text \<open>A sequence of calls of \<^verbatim>\<open>streamAudioToOpenAI\<close>, each with its clock reading.\<close>

fun streamAll :: "(int \<times> audio_field) list \<Rightarrow> session \<Rightarrow> session" where
  "streamAll [] s = s"
| "streamAll ((now, a) # cs) s = streamAll cs (streamAudioToOpenAI now a s)"

text \<open>The byte sequence an \<^verbatim>\<open>audio\<close> field carries (none when \<^verbatim>\<open>Buffer.from\<close> throws).\<close>

definition bytesOf :: "audio_field \<Rightarrow> byte list" where
  "bytesOf a = (case bufferFrom a of None \<Rightarrow> [] | Some bs \<Rightarrow> bs)"

text \<open>What a call or a handler has sent to the remote peer: the new end of the trace.\<close>

definition sentBy :: "session \<Rightarrow> session \<Rightarrow> openai_msg list" where
  "sentBy s s' = drop (length (toOpenAI s)) (toOpenAI s')"

definition toldBy ::
  "session \<Rightarrow> session \<Rightarrow> (string option, string option) client_msg list" where
  "toldBy s s' = drop (length (toClient s)) (toClient s')"

text \<open>
  Several connections: each has its own closure, so a message that arrives on connection
  \<open>c\<close> runs the handler on the variables of \<open>c\<close>.
\<close>

type_synonym server = "nat \<Rightarrow> session option"

definition deliver :: "nat \<Rightarrow> int \<Rightarrow> client_in \<Rightarrow> server \<Rightarrow> server" where
  "deliver c now m srv =
     (case srv c of None \<Rightarrow> srv | Some s \<Rightarrow> srv(c := Some (onClientMessage now m s)))"

section \<open>The accumulating relay (\<^verbatim>\<open>src/unnamed/part_001\<close>, lines 432 to 780)\<close>

text \<open>
  Another version of the server: it hands every audio chunk to the remote peer as it
  arrives (the remote peer's voice detection commits) and accumulates the translated
  audio of one response into one message. Its closure has other variables, so it has a
  record of its own; a name that \<^verbatim>\<open>src/server.js\<close> has already taken carries the suffix
  \<open>2\<close>. Sockets and exceptions are as above. Here the console is modelled: one constructor per \<^verbatim>\<open>console.log\<close> or
  \<^verbatim>\<open>console.error\<close> statement, with the interpolated values that the model has.

  An audio delta carries a base64 string in \<^verbatim>\<open>message.delta\<close>. \<open>ResponseAudioDelta2 None\<close>
  is a delta whose string is missing or empty (both are falsy), \<open>Some bs\<close> one whose
  string is not empty and decodes to the bytes \<open>bs\<close>. A transcript delta carries its
  string, the empty string standing for a missing one as well.
\<close>

datatype console_line =
    LogReceivedMessageType string
  | LogProcessingInit
  | LogAudioMessage bool bool
  | LogReceivedAudioData
  | LogSessionNotReady
  | LogUnknownMessageType string
  | ErrProcessingMessage string
  | LogWebSocketClosed
  | LogConnected
  | LogSessionActive
  | LogSentSessionReady
  | LogOpenAIMessageType string
  | LogSessionUpdated
  | LogCreatingResponse
  | LogReceivedAudioDelta
  | LogAccumulated nat
  | LogTranslationCompleted
  | LogTranslationFragment string
  | LogFullTranslation string
  | LogResponseCompleted
  | LogSendingCompleteAudio nat nat
  | LogSpeechDetected
  | LogSpeechEnded
  | LogCommittedByVAD
  | LogConversationItemCreated
  | ErrOpenAI
  | LogUnhandled string
  | ErrParsing
  | LogConnectionClosed
  | LogCannotStream bool bool
  | LogNoAudioData
  | LogReceivedChunk nat
  | LogSentBytes nat
  | LogStopping
  | ErrStreaming
  | ErrCreateSession

datatype openai_event2 =
    SessionUpdated
  | ResponseCreated2
  | ResponseAudioDelta2 "byte list option"
  | ResponseOutputItemDone bool
  | ResponseAudioTranscriptDelta string
  | ResponseDone2
  | SpeechStarted2
  | SpeechStopped2
  | InputAudioBufferCommitted
  | ConversationItemCreated
  | ErrorEvent2 "string option"
  | OtherEvent2 string
  | Unparsable2

text \<open>The \<^verbatim>\<open>type\<close> of an event, as line 561 prints it.\<close>

fun typeOf :: "openai_event2 \<Rightarrow> string" where
  "typeOf SessionUpdated = ''session.updated''"
| "typeOf ResponseCreated2 = ''response.created''"
| "typeOf (ResponseAudioDelta2 d) = ''response.audio.delta''"
| "typeOf (ResponseOutputItemDone b) = ''response.output_item.done''"
| "typeOf (ResponseAudioTranscriptDelta d) = ''response.audio_transcript.delta''"
| "typeOf ResponseDone2 = ''response.done''"
| "typeOf SpeechStarted2 = ''input_audio_buffer.speech_started''"
| "typeOf SpeechStopped2 = ''input_audio_buffer.speech_stopped''"
| "typeOf InputAudioBufferCommitted = ''input_audio_buffer.committed''"
| "typeOf ConversationItemCreated = ''conversation.item.created''"
| "typeOf (ErrorEvent2 e) = ''error''"
| "typeOf (OtherEvent2 t) = t"
| "typeOf Unparsable2 = []"

record session2 =
  openaiWs2 :: bool
  readyState2 :: ready_state
  isSessionActive2 :: bool
  responseInProgress2 :: bool
  currentTranslation :: string
  audioChunks :: "byte list list"
  toOpenAI2 :: "openai_msg list"
  toClient2 :: "(byte list, string) client_msg list"
  console :: "console_line list"
  stopTimers2 :: nat
  constructorThrows2 :: bool

definition newSession2 :: session2 where
  "newSession2 = \<lparr> openaiWs2 = False, readyState2 = CLOSED, isSessionActive2 = False,
     responseInProgress2 = False, currentTranslation = [], audioChunks = [],
     toOpenAI2 = [], toClient2 = [], console = [], stopTimers2 = 0,
     constructorThrows2 = False \<rparr>"

text \<open>
  \<^verbatim>\<open>openaiWs.send(JSON.stringify(m))\<close>; \<open>None\<close> when it throws. Each handler of this version
  sends the remote peer one message at most, so an option is enough.
\<close>

definition openaiSend2 :: "openai_msg \<Rightarrow> session2 \<Rightarrow> session2 option" where
  "openaiSend2 m s =
     (if \<not> openaiWs2 s then None
      else case readyState2 s of
        CONNECTING \<Rightarrow> None
      | OPEN \<Rightarrow> Some (s\<lparr>toOpenAI2 := toOpenAI2 s @ [m]\<rparr>)
      | CLOSING \<Rightarrow> Some s
      | CLOSED \<Rightarrow> Some s)"

definition wsSend2 :: "(byte list, string) client_msg \<Rightarrow> session2 \<Rightarrow> session2" where
  "wsSend2 m s = s\<lparr>toClient2 := toClient2 s @ [m]\<rparr>"

definition consoleLog :: "console_line \<Rightarrow> session2 \<Rightarrow> session2" where
  "consoleLog l s = s\<lparr>console := console s @ [l]\<rparr>"

subsection \<open>The remote socket's message handler (lines 558 to 671)\<close>

text \<open>The \<^verbatim>\<open>switch\<close>, one equation per \<^verbatim>\<open>case\<close>, in the order of the source.\<close>

fun dispatch2 :: "openai_event2 \<Rightarrow> session2 \<Rightarrow> session2" where
  "dispatch2 SessionUpdated s = consoleLog LogSessionUpdated s"
| "dispatch2 ResponseCreated2 s =
     consoleLog LogCreatingResponse
       (s\<lparr>responseInProgress2 := True, currentTranslation := [], audioChunks := []\<rparr>)"
| "dispatch2 (ResponseAudioDelta2 None) s = consoleLog LogReceivedAudioDelta s"
| "dispatch2 (ResponseAudioDelta2 (Some audioBytes)) s =
     consoleLog (LogAccumulated (length (audioChunks s) + 1))
       ((consoleLog LogReceivedAudioDelta s)\<lparr>audioChunks := audioChunks s @ [audioBytes]\<rparr>)"
| "dispatch2 (ResponseOutputItemDone isMessage) s =
     (if isMessage then consoleLog LogTranslationCompleted s else s)"
| "dispatch2 (ResponseAudioTranscriptDelta d) s =
     (if d \<noteq> [] then
        wsSend2 (Translation (currentTranslation s @ d))
          (consoleLog (LogFullTranslation (currentTranslation s @ d))
            (consoleLog (LogTranslationFragment d)
              (s\<lparr>currentTranslation := currentTranslation s @ d\<rparr>)))
      else s)"
| "dispatch2 ResponseDone2 s =
     (let s1 = consoleLog LogResponseCompleted (s\<lparr>responseInProgress2 := False\<rparr>) in
      if length (audioChunks s1) > 0 then
        (wsSend2 (TranslatedAudio (concat (audioChunks s1)))
          (consoleLog
            (LogSendingCompleteAudio (length (concat (audioChunks s1))) (length (audioChunks s1)))
            s1))
          \<lparr>audioChunks := []\<rparr>
      else s1)"
| "dispatch2 SpeechStarted2 s = wsSend2 SpeechStartedMsg (consoleLog LogSpeechDetected s)"
| "dispatch2 SpeechStopped2 s = wsSend2 SpeechStoppedMsg (consoleLog LogSpeechEnded s)"
| "dispatch2 InputAudioBufferCommitted s = consoleLog LogCommittedByVAD s"
| "dispatch2 ConversationItemCreated s = consoleLog LogConversationItemCreated s"
| "dispatch2 (ErrorEvent2 (Some e)) s =
     wsSend2 (ErrorMsg (''Translation error: '' @ e))
       ((consoleLog ErrOpenAI s)\<lparr>responseInProgress2 := False\<rparr>)"
| "dispatch2 (ErrorEvent2 None) s =
     consoleLog ErrParsing ((consoleLog ErrOpenAI s)\<lparr>responseInProgress2 := False\<rparr>)"
| "dispatch2 (OtherEvent2 t) s = consoleLog (LogUnhandled t) s"
| "dispatch2 Unparsable2 s = s"

text \<open>
  The handler: \<^verbatim>\<open>JSON.parse\<close> (whose failure goes to the \<^verbatim>\<open>catch\<close>), the line that prints
  the type, then the \<^verbatim>\<open>switch\<close>.
\<close>

definition onOpenaiMessage2 :: "openai_event2 \<Rightarrow> session2 \<Rightarrow> session2" where
  "onOpenaiMessage2 e s =
     (case e of
        Unparsable2 \<Rightarrow> consoleLog ErrParsing s
      | _ \<Rightarrow> dispatch2 e (consoleLog (LogOpenAIMessageType (typeOf e)) s))"

fun relay :: "openai_event2 list \<Rightarrow> session2 \<Rightarrow> session2" where
  "relay [] s = s"
| "relay (e # es) s = relay es (onOpenaiMessage2 e s)"

subsection \<open>The other handlers of this version\<close>

text \<open>Lines 507 to 518 and the \<^verbatim>\<open>catch\<close> of lines 689 to 697.\<close>

definition initializeOpenAISession2 :: "string \<Rightarrow> session2 \<Rightarrow> session2" where
  "initializeOpenAISession2 sid s =
     (if constructorThrows2 s then
        wsSend2 (ErrorMsg ''Failed to initialize translation session'')
          (consoleLog ErrCreateSession s)
      else s\<lparr>openaiWs2 := True, readyState2 := CONNECTING\<rparr>)"

text \<open>The handler of \<^verbatim>\<open>open\<close> (lines 519 to 556); it has no \<^verbatim>\<open>try\<close>.\<close>

definition onOpenaiOpen2 :: "session2 \<Rightarrow> session2" where
  "onOpenaiOpen2 s =
     (case openaiSend2 SessionUpdate (consoleLog LogConnected s) of
        None \<Rightarrow> consoleLog LogConnected s
      | Some t \<Rightarrow>
          consoleLog LogSentSessionReady
            (wsSend2 SessionReady
              (consoleLog LogSessionActive (t\<lparr>isSessionActive2 := True\<rparr>))))"

text \<open>
  Lines 700 to 730. The \<^verbatim>\<open>catch\<close> of lines 727 to 729 prints one line, whether
  \<^verbatim>\<open>Buffer.from\<close> or the send has thrown.
\<close>

definition streamAudioToOpenAI2 :: "audio_field \<Rightarrow> session2 \<Rightarrow> session2" where
  "streamAudioToOpenAI2 audioData s =
     (if \<not> openaiWs2 s \<or> \<not> isSessionActive2 s then
        consoleLog (LogCannotStream (openaiWs2 s) (isSessionActive2 s)) s
      else if \<not> truthy audioData then consoleLog LogNoAudioData s
      else case bufferFrom audioData of
        None \<Rightarrow> consoleLog ErrStreaming s
      | Some newData \<Rightarrow>
          (case openaiSend2 (InputAudioBufferAppend newData)
                  (consoleLog (LogReceivedChunk (length newData)) s) of
             None \<Rightarrow> consoleLog ErrStreaming (consoleLog (LogReceivedChunk (length newData)) s)
           | Some t \<Rightarrow> consoleLog (LogSentBytes (length newData)) t))"

text \<open>Lines 732 to 762.\<close>

definition stopSession2 :: "session2 \<Rightarrow> session2" where
  "stopSession2 s =
     (if openaiWs2 s \<and> isSessionActive2 s then
        wsSend2 SessionStopped ((consoleLog LogStopping s)\<lparr>stopTimers2 := stopTimers2 s + 1\<rparr>)
      else s)"

text \<open>Lines 472 to 497: the client socket's message handler.\<close>

definition onClientMessage2 :: "client_in \<Rightarrow> session2 \<Rightarrow> session2" where
  "onClientMessage2 m s =
     (case m of
        Malformed e \<Rightarrow> wsSend2 (ErrorMsg e) (consoleLog (ErrProcessingMessage e) s)
      | Data d \<Rightarrow>
          (let s1 = consoleLog (LogReceivedMessageType (mtype d)) s in
           if mtype d = ''init'' then
             initializeOpenAISession2 (sessionId d) (consoleLog LogProcessingInit s1)
           else if mtype d = ''audio'' then
             (let s2 = consoleLog LogReceivedAudioData
                         (consoleLog (LogAudioMessage (openaiWs2 s1) (isSessionActive2 s1)) s1) in
              if openaiWs2 s2 \<and> isSessionActive2 s2 then streamAudioToOpenAI2 (audio d) s2
              else consoleLog LogSessionNotReady s2)
           else if mtype d = ''stop'' then stopSession2 s1
           else consoleLog (LogUnknownMessageType (mtype d)) s1))"

text \<open>Whether a message to the client is a \<^verbatim>\<open>translated_audio\<close>.\<close>

fun isTranslatedAudio :: "('a, 't) client_msg \<Rightarrow> bool" where
  "isTranslatedAudio (TranslatedAudio a) = True"
| "isTranslatedAudio m = False"

text \<open>The byte sequence a delta carries.\<close>

fun deltaBytes :: "byte list option \<Rightarrow> byte list" where
  "deltaBytes None = []"
| "deltaBytes (Some bs) = bs"

subsection \<open>States used as concrete inputs\<close>

text \<open>
  A session after the client's \<^verbatim>\<open>init\<close> and the remote socket's \<^verbatim>\<open>open\<close>: the socket is
  open, the remote peer has been sent the configuration, the client has been told that
  the session is ready.
\<close>

definition initMessage :: client_in where
  "initMessage = Data \<lparr>mtype = ''init'', sessionId = ''s1'', audio = NoAudio\<rparr>"

definition activeSession :: session where
  "activeSession = run [ClientMessage 0 initMessage, OpenaiOpen] newSession"

definition stopMessage :: client_in where
  "stopMessage = Data \<lparr>mtype = ''stop'', sessionId = [], audio = NoAudio\<rparr>"

definition audioMessage :: "byte list \<Rightarrow> client_in" where
  "audioMessage bs = Data \<lparr>mtype = ''audio'', sessionId = [], audio = Audio bs\<rparr>"

definition pingMessage :: client_in where
  "pingMessage = Data \<lparr>mtype = ''ping'', sessionId = [], audio = NoAudio\<rparr>"

text \<open>
  Sessions in which a second \<^verbatim>\<open>init\<close> has arrived on an active session: the variable holds
  a socket that is still connecting while \<^verbatim>\<open>isSessionActive\<close> is still true. In the second
  one 5000 bytes were buffered before.
\<close>

definition reinitSession :: session where
  "reinitSession =
     run [ClientMessage 0 initMessage, OpenaiOpen, ClientMessage 1 initMessage] newSession"

definition reinitBuffered :: session where
  "reinitBuffered =
     run [ClientMessage 0 initMessage, OpenaiOpen,
          ClientMessage 100 (audioMessage (replicate 5000 0)),
          ClientMessage 200 initMessage] newSession"

text \<open>
  A session that has sent one frame and whose remote socket has then closed: it is no
  longer active and its counter reads 24000.
\<close>

definition closedAfterFrame :: session where
  "closedAfterFrame =
     run [ClientMessage 0 initMessage, OpenaiOpen,
          ClientMessage 100 (audioMessage (replicate 24000 0)), OpenaiClose] newSession"

text \<open>Five chunks of 5000 bytes within two seconds.\<close>

definition fiveChunks :: "(int \<times> audio_field) list" where
  "fiveChunks = [(100, Audio (replicate 5000 0)), (200, Audio (replicate 5000 0)),
        (300, Audio (replicate 5000 0)), (400, Audio (replicate 5000 0)),
        (500, Audio (replicate 5000 0))]"

section \<open>Properties of \<^verbatim>\<open>src/server.js\<close>\<close>

subsection \<open>The constants and the concrete sessions\<close>

lemma CHUNK_BYTES_eq: "CHUNK_BYTES = 24000"
  by (simp add: CHUNK_BYTES_def BYTES_PER_SECOND_def SAMPLE_RATE_def BYTES_PER_SAMPLE_def
      BITS_def CHANNELS_def CHUNK_MS_def)

lemma MIN_BUFFER_SIZE_eq: "MIN_BUFFER_SIZE = 9600"
  by (simp add: MIN_BUFFER_SIZE_def BYTES_PER_SECOND_def SAMPLE_RATE_def BYTES_PER_SAMPLE_def
      BITS_def CHANNELS_def)

lemma minRequiredBytes_eq: "minRequiredBytes = 4800"
  by (simp add: minRequiredBytes_def BYTES_PER_SECOND_def SAMPLE_RATE_def BYTES_PER_SAMPLE_def
      BITS_def CHANNELS_def)

lemma activeSession_eq:
  "activeSession = \<lparr> openaiWs = True, readyState = OPEN, isSessionActive = True,
     responseInProgress = False, audioBuffer = [], lastCommitTime = 0, totalAudioSent = 0,
     toOpenAI = [SessionUpdate], toClient = [SessionReady], stopTimers = 0,
     constructorThrows = False \<rparr>"
  by (simp add: activeSession_def initMessage_def onClientMessage_def onOpenaiOpen_def
      initializeOpenAISession_def wsSend_def openaiSend_def newSession_def)

subsection \<open>Traces\<close>

lemma audioOf_append: "audioOf (xs @ ys) = audioOf xs @ audioOf ys"
  by (induction xs rule: audioOf.induct) simp_all

lemma audioOf_frames: "audioOf (map InputAudioBufferAppend fs) = concat fs"
  by (induction fs) simp_all

lemma length_concat_frames:
  "\<forall>f \<in> set fs. length f = n \<Longrightarrow> length (concat fs) = length fs * n"
  by (induction fs) simp_all

lemma sentBy_append: "toOpenAI s' = toOpenAI s @ ms \<Longrightarrow> sentBy s s' = ms"
  by (simp add: sentBy_def)

lemma sentBy_same: "toOpenAI s' = toOpenAI s \<Longrightarrow> sentBy s s' = []"
  by (simp add: sentBy_def)

subsection \<open>Sends\<close>

lemma openaiSend_open:
  "openaiWs s \<Longrightarrow> readyState s = OPEN \<Longrightarrow>
   openaiSend m s = Returned (s\<lparr>toOpenAI := toOpenAI s @ [m]\<rparr>)"
  by (simp add: openaiSend_def)

lemma openaiSend_connecting:
  "readyState s = CONNECTING \<Longrightarrow> openaiSend m s = Threw s"
  by (simp add: openaiSend_def)

lemma openaiSend_silent:
  "\<not> (openaiWs s \<and> readyState s = OPEN) \<Longrightarrow>
   openaiSend m s = Threw s \<or> openaiSend m s = Returned s"
  by (cases "readyState s") (auto simp: openaiSend_def)

subsection \<open>The slicing loop\<close>

lemma sendChunks_open:
  assumes "openaiWs s" "readyState s = OPEN"
  shows "\<exists>fs rem. (\<forall>f \<in> set fs. length f = CHUNK_BYTES)
      \<and> audioBuffer s = concat fs @ rem \<and> length rem < CHUNK_BYTES
      \<and> sendChunks s = Returned (s\<lparr>audioBuffer := rem,
            toOpenAI := toOpenAI s @ map InputAudioBufferAppend fs,
            totalAudioSent := totalAudioSent s + length fs * CHUNK_BYTES\<rparr>)"
  using assms
proof (induction s rule: sendChunks.induct)
  case (1 s)
  show ?case
  proof (cases "length (audioBuffer s) \<ge> CHUNK_BYTES")
    case True
    let ?f = "take CHUNK_BYTES (audioBuffer s)"
    let ?u = "s\<lparr>audioBuffer := drop CHUNK_BYTES (audioBuffer s),
                toOpenAI := toOpenAI s @ [InputAudioBufferAppend ?f]\<rparr>"
    let ?t = "?u\<lparr>totalAudioSent := totalAudioSent ?u + CHUNK_BYTES\<rparr>"
    have send: "openaiSend (InputAudioBufferAppend ?f)
        (s\<lparr>audioBuffer := drop CHUNK_BYTES (audioBuffer s)\<rparr>) = Returned ?u"
      using "1.prems" by (simp add: openaiSend_def)
    have unf: "sendChunks s = sendChunks ?t"
      using True send by (subst sendChunks.simps) simp
    from "1.IH" [OF True send] "1.prems" obtain fs rem where fs:
      "\<forall>f \<in> set fs. length f = CHUNK_BYTES"
      "audioBuffer ?t = concat fs @ rem" "length rem < CHUNK_BYTES"
      "sendChunks ?t = Returned (?t\<lparr>audioBuffer := rem,
            toOpenAI := toOpenAI ?t @ map InputAudioBufferAppend fs,
            totalAudioSent := totalAudioSent ?t + length fs * CHUNK_BYTES\<rparr>)"
      by auto
    have "\<forall>f \<in> set (?f # fs). length f = CHUNK_BYTES"
      using fs(1) True by simp
    moreover have "audioBuffer s = concat (?f # fs) @ rem"
    proof -
      have "drop CHUNK_BYTES (audioBuffer s) = concat fs @ rem" using fs(2) by simp
      then have "?f @ drop CHUNK_BYTES (audioBuffer s) = ?f @ concat fs @ rem" by simp
      then show ?thesis by simp
    qed
    moreover have "sendChunks s = Returned (s\<lparr>audioBuffer := rem,
            toOpenAI := toOpenAI s @ map InputAudioBufferAppend (?f # fs),
            totalAudioSent := totalAudioSent s + length (?f # fs) * CHUNK_BYTES\<rparr>)"
      using fs(4) by (simp add: unf)
    ultimately show ?thesis using fs(3) by blast
  next
    case False
    then have "sendChunks s = Returned s" by (subst sendChunks.simps) simp
    then have "(\<forall>f \<in> set ([] :: byte list list). length f = CHUNK_BYTES)
      \<and> audioBuffer s = concat [] @ audioBuffer s \<and> length (audioBuffer s) < CHUNK_BYTES
      \<and> sendChunks s = Returned (s\<lparr>audioBuffer := audioBuffer s,
            toOpenAI := toOpenAI s @ map InputAudioBufferAppend [],
            totalAudioSent := totalAudioSent s + length ([] :: byte list list) * CHUNK_BYTES\<rparr>)"
      using False by simp
    then show ?thesis by blast
  qed
qed

lemma sendChunks_keeps:
  "openaiWs (sessionOf (sendChunks s)) = openaiWs s
   \<and> readyState (sessionOf (sendChunks s)) = readyState s
   \<and> isSessionActive (sessionOf (sendChunks s)) = isSessionActive s
   \<and> responseInProgress (sessionOf (sendChunks s)) = responseInProgress s
   \<and> lastCommitTime (sessionOf (sendChunks s)) = lastCommitTime s
   \<and> toClient (sessionOf (sendChunks s)) = toClient s"
proof (induction s rule: sendChunks.induct)
  case (1 s)
  show ?case
  proof (cases "length (audioBuffer s) \<ge> CHUNK_BYTES")
    case True
    let ?f = "take CHUNK_BYTES (audioBuffer s)"
    let ?v = "s\<lparr>audioBuffer := drop CHUNK_BYTES (audioBuffer s)\<rparr>"
    show ?thesis
    proof (cases "openaiSend (InputAudioBufferAppend ?f) ?v")
      case (Threw t)
      then have "t = ?v" by (auto simp: openaiSend_def split: if_splits ready_state.splits)
      moreover have "sendChunks s = Threw t"
        using True Threw by (subst sendChunks.simps) simp
      ultimately show ?thesis by simp
    next
      case (Returned t)
      then have t: "openaiWs t = openaiWs s" "readyState t = readyState s"
          "isSessionActive t = isSessionActive s" "responseInProgress t = responseInProgress s"
          "lastCommitTime t = lastCommitTime s" "toClient t = toClient s"
        by (auto simp: openaiSend_def split: if_splits ready_state.splits)
      have "sendChunks s = sendChunks (t\<lparr>totalAudioSent := totalAudioSent t + CHUNK_BYTES\<rparr>)"
        using True Returned by (subst sendChunks.simps) simp
      then show ?thesis using "1.IH" [OF True Returned] t by simp
    qed
  next
    case False
    then have "sendChunks s = Returned s" by (subst sendChunks.simps) simp
    then show ?thesis by simp
  qed
qed

lemma sendChunks_silent:
  "\<not> (openaiWs s \<and> readyState s = OPEN) \<Longrightarrow>
   toOpenAI (sessionOf (sendChunks s)) = toOpenAI s"
proof (induction s rule: sendChunks.induct)
  case (1 s)
  show ?case
  proof (cases "length (audioBuffer s) \<ge> CHUNK_BYTES")
    case True
    let ?f = "take CHUNK_BYTES (audioBuffer s)"
    let ?v = "s\<lparr>audioBuffer := drop CHUNK_BYTES (audioBuffer s)\<rparr>"
    have nv: "\<not> (openaiWs ?v \<and> readyState ?v = OPEN)" using "1.prems" by simp
    show ?thesis
    proof (cases "openaiSend (InputAudioBufferAppend ?f) ?v")
      case (Threw t)
      then have "t = ?v" using openaiSend_silent [OF nv, of "InputAudioBufferAppend ?f"] by simp
      moreover have "sendChunks s = Threw t"
        using True Threw by (subst sendChunks.simps) simp
      ultimately show ?thesis by simp
    next
      case (Returned t)
      then have t: "t = ?v" using openaiSend_silent [OF nv, of "InputAudioBufferAppend ?f"] by simp
      have "sendChunks s = sendChunks (t\<lparr>totalAudioSent := totalAudioSent t + CHUNK_BYTES\<rparr>)"
        using True Returned by (subst sendChunks.simps) simp
      then show ?thesis using "1.IH" [OF True Returned] "1.prems" t by simp
    qed
  next
    case False
    then have "sendChunks s = Returned s" by (subst sendChunks.simps) simp
    then show ?thesis by simp
  qed
qed

text \<open>On a socket that is still connecting the first frame is cut off and lost.\<close>

lemma sendChunks_connecting:
  "readyState s = CONNECTING \<Longrightarrow>
   sendChunks s =
     (if length (audioBuffer s) \<ge> CHUNK_BYTES
      then Threw (s\<lparr>audioBuffer := drop CHUNK_BYTES (audioBuffer s)\<rparr>) else Returned s)"
  by (subst sendChunks.simps) (simp add: openaiSend_def)

subsection \<open>The auto-commit block\<close>

lemma gate_implies_commit:
  "length (audioBuffer s) \<ge> MIN_BUFFER_SIZE \<Longrightarrow> sendRemaining s = Returned t \<Longrightarrow>
   totalAudioSent t \<ge> minRequiredBytes"
  by (cases "audioBuffer s"; cases "readyState s")
     (auto simp: sendRemaining_def openaiSend_def MIN_BUFFER_SIZE_eq minRequiredBytes_eq
        split: if_splits)

lemma autoCommitBlock_open:
  assumes "openaiWs s" "readyState s = OPEN"
  shows "autoCommitBlock now s = Returned
     (if length (audioBuffer s) \<ge> MIN_BUFFER_SIZE \<and> now - lastCommitTime s > 2000 then
        s\<lparr>audioBuffer := [], totalAudioSent := 0, lastCommitTime := now,
          toOpenAI := toOpenAI s @ [InputAudioBufferAppend (audioBuffer s), InputAudioBufferCommit]
            @ (if responseInProgress s then [] else [ResponseCreate]),
          responseInProgress := True\<rparr>
      else s)"
  using assms
  by (cases "audioBuffer s")
     (simp_all add: autoCommitBlock_def createResponse_def commitIfEnough_def sendRemaining_def
      openaiSend_def MIN_BUFFER_SIZE_eq minRequiredBytes_eq)

lemma autoCommitBlock_silent:
  "\<not> (openaiWs s \<and> readyState s = OPEN) \<Longrightarrow>
   toOpenAI (sessionOf (autoCommitBlock now s)) = toOpenAI s"
  by (cases "readyState s"; cases "audioBuffer s")
     (auto simp: autoCommitBlock_def createResponse_def commitIfEnough_def sendRemaining_def
      openaiSend_def MIN_BUFFER_SIZE_eq minRequiredBytes_eq)

lemma autoCommit_counter:
  assumes "openaiWs s" "readyState s = OPEN"
    "length (audioBuffer s) \<ge> MIN_BUFFER_SIZE" "now - lastCommitTime s > 2000"
  shows "InputAudioBufferCommit \<in> set (sentBy s (autoCommit now s))
         \<and> totalAudioSent (autoCommit now s) = 0"
  using assms by (simp add: autoCommit_def autoCommitBlock_open sentBy_def)

subsection \<open>\<^verbatim>\<open>streamAudioToOpenAI\<close> as a whole\<close>

lemma stream_open:
  assumes "openaiWs s" "readyState s = OPEN" "isSessionActive s"
  shows "\<exists>fs rem. (\<forall>f \<in> set fs. length f = CHUNK_BYTES)
      \<and> audioBuffer s @ newData = concat fs @ rem \<and> length rem < CHUNK_BYTES
      \<and> streamAudioToOpenAI now (Audio newData) s =
          (if length rem \<ge> MIN_BUFFER_SIZE \<and> now - lastCommitTime s > 2000 then
             s\<lparr>audioBuffer := [], totalAudioSent := 0, lastCommitTime := now,
               toOpenAI := toOpenAI s @ map InputAudioBufferAppend fs
                 @ [InputAudioBufferAppend rem, InputAudioBufferCommit]
                 @ (if responseInProgress s then [] else [ResponseCreate]),
               responseInProgress := True\<rparr>
           else
             s\<lparr>audioBuffer := rem,
               toOpenAI := toOpenAI s @ map InputAudioBufferAppend fs,
               totalAudioSent := totalAudioSent s + length fs * CHUNK_BYTES\<rparr>)"
proof -
  let ?b = "s\<lparr>audioBuffer := audioBuffer s @ newData\<rparr>"
  have b: "openaiWs ?b" "readyState ?b = OPEN" using assms by simp_all
  from sendChunks_open [OF b] obtain fs rem where fs:
    "\<forall>f \<in> set fs. length f = CHUNK_BYTES"
    "audioBuffer s @ newData = concat fs @ rem" "length rem < CHUNK_BYTES"
    "sendChunks ?b = Returned (?b\<lparr>audioBuffer := rem,
            toOpenAI := toOpenAI ?b @ map InputAudioBufferAppend fs,
            totalAudioSent := totalAudioSent ?b + length fs * CHUNK_BYTES\<rparr>)"
    by auto
  let ?c = "?b\<lparr>audioBuffer := rem,
            toOpenAI := toOpenAI ?b @ map InputAudioBufferAppend fs,
            totalAudioSent := totalAudioSent ?b + length fs * CHUNK_BYTES\<rparr>"
  have c: "openaiWs ?c" "readyState ?c = OPEN" using assms by simp_all
  have "streamAudioToOpenAI now (Audio newData) s = sessionOf (autoCommitBlock now ?c)"
    using assms fs(4) by (simp add: streamAudioToOpenAI_def)
  also have "\<dots> =
          (if length rem \<ge> MIN_BUFFER_SIZE \<and> now - lastCommitTime s > 2000 then
             s\<lparr>audioBuffer := [], totalAudioSent := 0, lastCommitTime := now,
               toOpenAI := toOpenAI s @ map InputAudioBufferAppend fs
                 @ [InputAudioBufferAppend rem, InputAudioBufferCommit]
                 @ (if responseInProgress s then [] else [ResponseCreate]),
               responseInProgress := True\<rparr>
           else
             s\<lparr>audioBuffer := rem,
               toOpenAI := toOpenAI s @ map InputAudioBufferAppend fs,
               totalAudioSent := totalAudioSent s + length fs * CHUNK_BYTES\<rparr>)"
    using assms by (simp add: autoCommitBlock_open)
  finally show ?thesis using fs(1,2,3) by blast
qed

lemma stream_keeps:
  "openaiWs (streamAudioToOpenAI now a s) = openaiWs s
   \<and> readyState (streamAudioToOpenAI now a s) = readyState s
   \<and> isSessionActive (streamAudioToOpenAI now a s) = isSessionActive s"
proof (cases "bufferFrom a")
  case None
  then show ?thesis by (simp add: streamAudioToOpenAI_def)
next
  case (Some newData)
  let ?b = "s\<lparr>audioBuffer := audioBuffer s @ newData\<rparr>"
  have k: "openaiWs (sessionOf (sendChunks ?b)) = openaiWs s"
      "readyState (sessionOf (sendChunks ?b)) = readyState s"
      "isSessionActive (sessionOf (sendChunks ?b)) = isSessionActive s"
    using sendChunks_keeps [of ?b] by simp_all
  have a: "\<And>t. openaiWs (sessionOf (autoCommitBlock now t)) = openaiWs t
      \<and> readyState (sessionOf (autoCommitBlock now t)) = readyState t
      \<and> isSessionActive (sessionOf (autoCommitBlock now t)) = isSessionActive t"
  proof -
    fix t show "openaiWs (sessionOf (autoCommitBlock now t)) = openaiWs t
      \<and> readyState (sessionOf (autoCommitBlock now t)) = readyState t
      \<and> isSessionActive (sessionOf (autoCommitBlock now t)) = isSessionActive t"
      by (cases "readyState t"; cases "audioBuffer t")
         (auto simp: autoCommitBlock_def createResponse_def commitIfEnough_def
            sendRemaining_def openaiSend_def)
  qed
  show ?thesis
  proof (cases "sendChunks ?b")
    case (Returned t)
    then show ?thesis using Some k a [of t] by (simp add: streamAudioToOpenAI_def)
  next
    case (Threw t)
    then show ?thesis using Some k by (simp add: streamAudioToOpenAI_def)
  qed
qed

lemma stream_silent:
  assumes "\<not> (openaiWs s \<and> readyState s = OPEN)"
  shows "toOpenAI (streamAudioToOpenAI now a s) = toOpenAI s"
proof (cases "bufferFrom a")
  case None
  then show ?thesis by (simp add: streamAudioToOpenAI_def)
next
  case (Some newData)
  let ?b = "s\<lparr>audioBuffer := audioBuffer s @ newData\<rparr>"
  have nb: "\<not> (openaiWs ?b \<and> readyState ?b = OPEN)" using assms by simp
  have 1: "toOpenAI (sessionOf (sendChunks ?b)) = toOpenAI s"
    using sendChunks_silent [OF nb] by simp
  have k: "openaiWs (sessionOf (sendChunks ?b)) = openaiWs s"
      "readyState (sessionOf (sendChunks ?b)) = readyState s"
    using sendChunks_keeps [of ?b] by simp_all
  show ?thesis
  proof (cases "sendChunks ?b")
    case (Returned t)
    then have "\<not> (openaiWs t \<and> readyState t = OPEN)" using k assms by simp
    then have "toOpenAI (sessionOf (autoCommitBlock now t)) = toOpenAI t"
      by (rule autoCommitBlock_silent)
    then show ?thesis using Some Returned 1 by (simp add: streamAudioToOpenAI_def)
  next
    case (Threw t)
    then show ?thesis using Some 1 by (simp add: streamAudioToOpenAI_def)
  qed
qed

lemma stream_conserves:
  assumes "openaiWs s" "readyState s = OPEN" "isSessionActive s"
  shows "audioOf (toOpenAI (streamAudioToOpenAI now a s)) @ audioBuffer (streamAudioToOpenAI now a s)
     = audioOf (toOpenAI s) @ audioBuffer s @ bytesOf a"
proof (cases "bufferFrom a")
  case None
  then show ?thesis by (simp add: streamAudioToOpenAI_def bytesOf_def)
next
  case (Some newData)
  have eq: "streamAudioToOpenAI now a s = streamAudioToOpenAI now (Audio newData) s"
    using Some by (simp add: streamAudioToOpenAI_def)
  from stream_open [OF assms, of newData now] obtain fs rem where fs:
    "audioBuffer s @ newData = concat fs @ rem"
    "streamAudioToOpenAI now (Audio newData) s =
          (if length rem \<ge> MIN_BUFFER_SIZE \<and> now - lastCommitTime s > 2000 then
             s\<lparr>audioBuffer := [], totalAudioSent := 0, lastCommitTime := now,
               toOpenAI := toOpenAI s @ map InputAudioBufferAppend fs
                 @ [InputAudioBufferAppend rem, InputAudioBufferCommit]
                 @ (if responseInProgress s then [] else [ResponseCreate]),
               responseInProgress := True\<rparr>
           else
             s\<lparr>audioBuffer := rem,
               toOpenAI := toOpenAI s @ map InputAudioBufferAppend fs,
               totalAudioSent := totalAudioSent s + length fs * CHUNK_BYTES\<rparr>)"
    by blast
  have "audioOf (toOpenAI (streamAudioToOpenAI now (Audio newData) s))
          @ audioBuffer (streamAudioToOpenAI now (Audio newData) s)
        = audioOf (toOpenAI s) @ concat fs @ rem"
    by (simp add: fs(2) audioOf_append audioOf_frames)
  then show ?thesis using fs(1) Some by (simp add: eq bytesOf_def)
qed

lemma stream_no_create:
  assumes rip: "responseInProgress s"
  shows "ResponseCreate \<notin> set (sentBy s (streamAudioToOpenAI now a s))"
proof (cases "openaiWs s \<and> readyState s = OPEN")
  case False
  then show ?thesis by (simp add: sentBy_same [OF stream_silent])
next
  case opened: True
  show ?thesis
  proof (cases "isSessionActive s")
    case False
    then show ?thesis by (simp add: streamAudioToOpenAI_def sentBy_def)
  next
    case True
    show ?thesis
    proof (cases "bufferFrom a")
      case None
      then show ?thesis by (simp add: streamAudioToOpenAI_def sentBy_def)
    next
      case (Some newData)
      have eq: "streamAudioToOpenAI now a s = streamAudioToOpenAI now (Audio newData) s"
        using Some by (simp add: streamAudioToOpenAI_def)
      from stream_open [of s newData now] opened True obtain fs rem where
        "streamAudioToOpenAI now (Audio newData) s =
          (if length rem \<ge> MIN_BUFFER_SIZE \<and> now - lastCommitTime s > 2000 then
             s\<lparr>audioBuffer := [], totalAudioSent := 0, lastCommitTime := now,
               toOpenAI := toOpenAI s @ map InputAudioBufferAppend fs
                 @ [InputAudioBufferAppend rem, InputAudioBufferCommit]
                 @ (if responseInProgress s then [] else [ResponseCreate]),
               responseInProgress := True\<rparr>
           else
             s\<lparr>audioBuffer := rem,
               toOpenAI := toOpenAI s @ map InputAudioBufferAppend fs,
               totalAudioSent := totalAudioSent s + length fs * CHUNK_BYTES\<rparr>)"
        by blast
      then show ?thesis using rip by (auto simp: eq sentBy_def)
    qed
  qed
qed

text \<open>Below the floor a call only buffers, whatever the socket.\<close>

lemma stream_below_floor:
  assumes "openaiWs s" "isSessionActive s" "now - lastCommitTime s > 2000"
    "totalAudioSent s + length (audioBuffer s @ newData) < minRequiredBytes"
  shows "streamAudioToOpenAI now (Audio newData) s = s\<lparr>audioBuffer := audioBuffer s @ newData\<rparr>"
proof -
  let ?b = "s\<lparr>audioBuffer := audioBuffer s @ newData\<rparr>"
  have "sendChunks ?b = Returned ?b"
    using assms(4) by (subst sendChunks.simps) (simp add: CHUNK_BYTES_eq minRequiredBytes_eq)
  moreover have "autoCommitBlock now ?b = Returned ?b"
    using assms(4) by (simp add: autoCommitBlock_def MIN_BUFFER_SIZE_eq minRequiredBytes_eq)
  ultimately show ?thesis using assms(1,2) by (simp add: streamAudioToOpenAI_def)
qed

subsection \<open>\<^verbatim>\<open>stopSession\<close>\<close>

lemma stopSession_open:
  assumes "openaiWs s" "readyState s = OPEN" "isSessionActive s"
  shows "stopSession s = s\<lparr>
      toOpenAI := toOpenAI s
        @ (if audioBuffer s \<noteq> [] then [InputAudioBufferAppend (audioBuffer s)] else [])
        @ (if totalAudioSent s + length (audioBuffer s) \<ge> minRequiredBytes
           then [InputAudioBufferCommit] else []),
      totalAudioSent := totalAudioSent s + length (audioBuffer s),
      stopTimers := stopTimers s + 1,
      toClient := toClient s @ [SessionStopped]\<rparr>"
  using assms
  by (simp add: stopSession_def wsSend_def finalCommit_def sendFinal_def openaiSend_def)

lemma stopSession_silent:
  "\<not> (openaiWs s \<and> readyState s = OPEN) \<Longrightarrow> toOpenAI (stopSession s) = toOpenAI s"
  by (cases "readyState s")
     (auto simp: stopSession_def wsSend_def finalCommit_def sendFinal_def openaiSend_def
        closeSocket_def)

text \<open>
  When the first send of the stop throws, the catch tears the session down: nothing is
  flushed or committed and the client is not told.
\<close>

lemma stopSession_connecting:
  assumes "openaiWs s" "readyState s = CONNECTING" "isSessionActive s"
    "audioBuffer s \<noteq> [] \<or> totalAudioSent s \<ge> minRequiredBytes"
  shows "stopSession s = s\<lparr>readyState := CLOSING, isSessionActive := False,
      responseInProgress := False, openaiWs := False\<rparr>"
  using assms
  by (auto simp: stopSession_def wsSend_def finalCommit_def sendFinal_def openaiSend_def
      closeSocket_def)

lemma stopSession_inactive: "\<not> (openaiWs s \<and> isSessionActive s) \<Longrightarrow> stopSession s = s"
  by (auto simp: stopSession_def)

lemma stopSession_no_create: "ResponseCreate \<notin> set (sentBy s (stopSession s))"
proof (cases "openaiWs s \<and> readyState s = OPEN")
  case False
  then show ?thesis by (simp add: sentBy_same [OF stopSession_silent])
next
  case True
  then show ?thesis
    by (cases "isSessionActive s") (simp_all add: stopSession_open stopSession_inactive sentBy_def)
qed

subsection \<open>Concrete runs\<close>

lemma reinitSession_eq:
  "reinitSession = \<lparr> openaiWs = True, readyState = CONNECTING, isSessionActive = True,
     responseInProgress = False, audioBuffer = [], lastCommitTime = 0, totalAudioSent = 0,
     toOpenAI = [SessionUpdate], toClient = [SessionReady], stopTimers = 0,
     constructorThrows = False \<rparr>"
  by (simp add: reinitSession_def initMessage_def onClientMessage_def onOpenaiOpen_def
      initializeOpenAISession_def wsSend_def openaiSend_def newSession_def)

lemma reinitBuffered_eq:
  "reinitBuffered = \<lparr> openaiWs = True, readyState = CONNECTING, isSessionActive = True,
     responseInProgress = False, audioBuffer = replicate 5000 0, lastCommitTime = 0,
     totalAudioSent = 0, toOpenAI = [SessionUpdate], toClient = [SessionReady],
     stopTimers = 0, constructorThrows = False \<rparr>"
  by (simp add: reinitBuffered_def initMessage_def audioMessage_def onClientMessage_def
      onOpenaiOpen_def initializeOpenAISession_def wsSend_def openaiSend_def newSession_def
      streamAudioToOpenAI_def sendChunks.simps autoCommitBlock_def CHUNK_BYTES_eq
      MIN_BUFFER_SIZE_eq)

lemma closedAfterFrame_eq:
  "closedAfterFrame = \<lparr> openaiWs = True, readyState = CLOSED, isSessionActive = False,
     responseInProgress = False, audioBuffer = [], lastCommitTime = 0,
     totalAudioSent = 24000,
     toOpenAI = [SessionUpdate, InputAudioBufferAppend (replicate 24000 0)],
     toClient = [SessionReady], stopTimers = 0, constructorThrows = False \<rparr>"
  by (simp add: closedAfterFrame_def initMessage_def audioMessage_def onClientMessage_def
      onOpenaiOpen_def onOpenaiClose_def initializeOpenAISession_def wsSend_def openaiSend_def
      newSession_def streamAudioToOpenAI_def sendChunks.simps autoCommitBlock_def
      CHUNK_BYTES_eq MIN_BUFFER_SIZE_eq)

lemma append_replicate_same: "replicate m x @ replicate n x = replicate (m + n) x"
  by (simp add: replicate_add)

text \<open>
  Five chunks of 5000 bytes within two seconds on an open socket: one frame of 24000
  bytes is sent and 1000 bytes are retained.
\<close>

lemma five_chunks_one_frame:
  "sentBy activeSession (streamAll fiveChunks activeSession)
     = [InputAudioBufferAppend (replicate 24000 0)]
   \<and> audioBuffer (streamAll fiveChunks activeSession) = replicate 1000 0"
  by (simp add: fiveChunks_def activeSession_eq streamAudioToOpenAI_def sendChunks.simps
      autoCommitBlock_def CHUNK_BYTES_eq MIN_BUFFER_SIZE_eq sentBy_def openaiSend_def
      append_replicate_same)

text \<open>
  A \<^verbatim>\<open>stop\<close> followed by the socket's \<^verbatim>\<open>close\<close> before the timer fires runs \<^verbatim>\<open>stopSession\<close>
  twice on the same buffer and the same counter: the remainder and the commit are sent
  twice.
\<close>

lemma stop_then_close_repeats:
  "sentBy (activeSession\<lparr>audioBuffer := replicate 5000 0\<rparr>)
     (run [ClientMessage 10 stopMessage, ClientClose]
        (activeSession\<lparr>audioBuffer := replicate 5000 0\<rparr>))
   = [InputAudioBufferAppend (replicate 5000 0), InputAudioBufferCommit,
      InputAudioBufferAppend (replicate 5000 0), InputAudioBufferCommit]"
  by (simp add: onClientMessage_def onClientClose_def stopSession_def sendFinal_def
      finalCommit_def wsSend_def openaiSend_def sentBy_def activeSession_eq stopMessage_def
      minRequiredBytes_eq)

text \<open>
  The relay of \<^verbatim>\<open>src/server.js\<close> forwards every audio delta at once, one
  \<^verbatim>\<open>translated_audio\<close> per delta; only the version of \<^verbatim>\<open>part_001\<close> accumulates.
\<close>

lemma server_js_forwards_each_delta:
  "toClient (run [OpenaiMessage ResponseCreated, OpenaiMessage (ResponseAudioDelta a)] s)
     = toClient s @ [TranslatedAudio a]"
  by (simp add: wsSend_def)


section \<open>The claims about the frame buffer\<close>

text \<open>
  Claim C1, as the code has it. For every sequence of audio-chunk calls of
  \<^verbatim>\<open>streamAudioToOpenAI\<close> on an active session whose remote socket is open, the bytes
  sent to the remote peer in append messages, in the order sent, followed by the buffer
  that is retained at the end, are the bytes of all inputs in arrival order: no byte is
  lost, none is reordered. The statement starts from any such session, with whatever it
  has sent and buffered so far; a call changes neither \<^verbatim>\<open>openaiWs\<close> nor its \<^verbatim>\<open>readyState\<close>
  nor \<^verbatim>\<open>isSessionActive\<close>. An input on which \<^verbatim>\<open>Buffer.from\<close> throws carries no bytes.
\<close>

theorem frame_buffer_conserves_bytes:
  "openaiWs s \<Longrightarrow> readyState s = OPEN \<Longrightarrow> isSessionActive s \<Longrightarrow>
   audioOf (toOpenAI (streamAll calls s)) @ audioBuffer (streamAll calls s)
     = audioOf (toOpenAI s) @ audioBuffer s @ concat (map (\<lambda>(now, a). bytesOf a) calls)"
proof (induction calls arbitrary: s)
  case Nil
  then show ?case by simp
next
  case (Cons c calls)
  obtain now a where c: "c = (now, a)" by (cases c)
  from Cons.prems have act: "openaiWs (streamAudioToOpenAI now a s)"
      "readyState (streamAudioToOpenAI now a s) = OPEN"
      "isSessionActive (streamAudioToOpenAI now a s)"
    by (simp_all add: stream_keeps)
  show ?case
    using Cons.IH [OF act] stream_conserves [OF Cons.prems, of now a]
    by (simp add: c)
qed

text \<open>
  The witness: five chunks of 5000 bytes; one frame of 24000 bytes goes out, 1000 bytes
  stay, and together they are the 25000 bytes that came in.
\<close>

theorem frame_buffer_conserves_bytes_witness:
  "openaiWs activeSession \<and> readyState activeSession = OPEN \<and> isSessionActive activeSession
   \<and> sentBy activeSession (streamAll fiveChunks activeSession)
       = [InputAudioBufferAppend (replicate 24000 0)]
   \<and> audioBuffer (streamAll fiveChunks activeSession) = replicate 1000 0
   \<and> audioOf (toOpenAI (streamAll fiveChunks activeSession))
       @ audioBuffer (streamAll fiveChunks activeSession) = replicate 25000 0"
proof -
  have h: "openaiWs activeSession" "readyState activeSession = OPEN"
      "isSessionActive activeSession"
    by (simp_all add: activeSession_eq)
  have "audioOf (toOpenAI (streamAll fiveChunks activeSession))
       @ audioBuffer (streamAll fiveChunks activeSession) = replicate 25000 0"
    using frame_buffer_conserves_bytes [OF h, of fiveChunks]
    by (simp add: activeSession_eq fiveChunks_def bytesOf_def append_replicate_same)
  then show ?thesis using h five_chunks_one_frame by simp
qed

text \<open>
  The claim as stated fails, at two inputs. After \<^verbatim>\<open>init\<close>, \<^verbatim>\<open>open\<close> and a second \<^verbatim>\<open>init\<close>
  the session is active and holds a socket that is still connecting. A chunk of 24000
  bytes is cut off the buffer (line 223), the send throws (line 226) and the \<^verbatim>\<open>catch\<close>
  (line 298) only logs: nothing has been sent and nothing is retained. And a call on a
  session that is not active returns at the guard of line 209: its three bytes are
  neither sent nor retained.
\<close>

theorem frame_lost_counterexample:
  "openaiWs reinitSession \<and> isSessionActive reinitSession
   \<and> audioOf (toOpenAI reinitSession) @ audioBuffer reinitSession = []
   \<and> audioOf (toOpenAI (streamAll [(2000, Audio (replicate 24000 0))] reinitSession))
       @ audioBuffer (streamAll [(2000, Audio (replicate 24000 0))] reinitSession) = []
   \<and> audioOf (toOpenAI (streamAll [(2000, Audio [1, 2, 3])] newSession))
       @ audioBuffer (streamAll [(2000, Audio [1, 2, 3])] newSession) = []"
  by (simp add: reinitSession_eq streamAudioToOpenAI_def sendChunks_connecting CHUNK_BYTES_eq
      newSession_def)

text \<open>
  Claim C8, as the code has it. After every audio-chunk processing step on an active
  session whose remote socket is open, the buffer holds strictly less than one frame
  (\<open>CHUNK_BYTES\<close>, 24000 bytes): the step cuts the buffer and the new bytes into the whole
  frames \<open>fs\<close> and a remainder \<open>rem\<close> shorter than a frame, and sends every frame of
  \<open>fs\<close>, in order, before anything else. What follows the frames in the trace is the
  auto-commit block: either nothing, and \<open>rem\<close> is the new buffer, or the flush of \<open>rem\<close>
  with its commit, and the new buffer is empty.
\<close>

theorem buffer_below_one_frame:
  "openaiWs s \<Longrightarrow> readyState s = OPEN \<Longrightarrow> isSessionActive s \<Longrightarrow>
   \<exists>fs rem. (\<forall>f \<in> set fs. length f = CHUNK_BYTES) \<and> CHUNK_BYTES = 24000
     \<and> audioBuffer s @ newData = concat fs @ rem \<and> length rem < CHUNK_BYTES
     \<and> take (length fs) (sentBy s (streamAudioToOpenAI now (Audio newData) s))
         = map InputAudioBufferAppend fs
     \<and> (if length rem \<ge> MIN_BUFFER_SIZE \<and> now - lastCommitTime s > 2000
        then drop (length fs) (sentBy s (streamAudioToOpenAI now (Audio newData) s))
               = [InputAudioBufferAppend rem, InputAudioBufferCommit]
                 @ (if responseInProgress s then [] else [ResponseCreate])
             \<and> audioBuffer (streamAudioToOpenAI now (Audio newData) s) = []
        else drop (length fs) (sentBy s (streamAudioToOpenAI now (Audio newData) s)) = []
             \<and> audioBuffer (streamAudioToOpenAI now (Audio newData) s) = rem)
     \<and> length (audioBuffer (streamAudioToOpenAI now (Audio newData) s)) < CHUNK_BYTES"
proof -
  assume a: "openaiWs s" "readyState s = OPEN" "isSessionActive s"
  from stream_open [OF a, of newData now] obtain fs rem where fs:
    "\<forall>f \<in> set fs. length f = CHUNK_BYTES"
    "audioBuffer s @ newData = concat fs @ rem" "length rem < CHUNK_BYTES"
    "streamAudioToOpenAI now (Audio newData) s =
          (if length rem \<ge> MIN_BUFFER_SIZE \<and> now - lastCommitTime s > 2000 then
             s\<lparr>audioBuffer := [], totalAudioSent := 0, lastCommitTime := now,
               toOpenAI := toOpenAI s @ map InputAudioBufferAppend fs
                 @ [InputAudioBufferAppend rem, InputAudioBufferCommit]
                 @ (if responseInProgress s then [] else [ResponseCreate]),
               responseInProgress := True\<rparr>
           else
             s\<lparr>audioBuffer := rem,
               toOpenAI := toOpenAI s @ map InputAudioBufferAppend fs,
               totalAudioSent := totalAudioSent s + length fs * CHUNK_BYTES\<rparr>)"
    by blast
  have "take (length fs) (sentBy s (streamAudioToOpenAI now (Audio newData) s))
         = map InputAudioBufferAppend fs"
    by (simp add: fs(4) sentBy_def)
  moreover have "(if length rem \<ge> MIN_BUFFER_SIZE \<and> now - lastCommitTime s > 2000
        then drop (length fs) (sentBy s (streamAudioToOpenAI now (Audio newData) s))
               = [InputAudioBufferAppend rem, InputAudioBufferCommit]
                 @ (if responseInProgress s then [] else [ResponseCreate])
             \<and> audioBuffer (streamAudioToOpenAI now (Audio newData) s) = []
        else drop (length fs) (sentBy s (streamAudioToOpenAI now (Audio newData) s)) = []
             \<and> audioBuffer (streamAudioToOpenAI now (Audio newData) s) = rem)"
    by (simp add: fs(4) sentBy_def)
  moreover have "length (audioBuffer (streamAudioToOpenAI now (Audio newData) s)) < CHUNK_BYTES"
    using fs(3) by (simp add: fs(4) CHUNK_BYTES_eq)
  ultimately show ?thesis using fs(1,2,3) CHUNK_BYTES_eq by blast
qed

text \<open>The witness: 50000 bytes give two frames and a remainder of 2000 bytes.\<close>

theorem buffer_below_one_frame_witness:
  "openaiWs activeSession \<and> readyState activeSession = OPEN \<and> isSessionActive activeSession
   \<and> sentBy activeSession (streamAudioToOpenAI 2 (Audio (replicate 50000 0)) activeSession)
       = [InputAudioBufferAppend (replicate 24000 0), InputAudioBufferAppend (replicate 24000 0)]
   \<and> audioBuffer (streamAudioToOpenAI 2 (Audio (replicate 50000 0)) activeSession)
       = replicate 2000 0
   \<and> length (audioBuffer (streamAudioToOpenAI 2 (Audio (replicate 50000 0)) activeSession))
       < CHUNK_BYTES"
proof -
  have h: "openaiWs activeSession" "readyState activeSession = OPEN"
      "isSessionActive activeSession"
    by (simp_all add: activeSession_eq)
  have "length (audioBuffer (streamAudioToOpenAI 2 (Audio (replicate 50000 0)) activeSession))
       < CHUNK_BYTES"
    using buffer_below_one_frame [OF h, of "replicate 50000 0" 2] by blast
  moreover have "sentBy activeSession
        (streamAudioToOpenAI 2 (Audio (replicate 50000 0)) activeSession)
       = [InputAudioBufferAppend (replicate 24000 0), InputAudioBufferAppend (replicate 24000 0)]
   \<and> audioBuffer (streamAudioToOpenAI 2 (Audio (replicate 50000 0)) activeSession)
       = replicate 2000 0"
    by (simp add: activeSession_eq streamAudioToOpenAI_def sendChunks.simps
      autoCommitBlock_def CHUNK_BYTES_eq MIN_BUFFER_SIZE_eq sentBy_def openaiSend_def)
  ultimately show ?thesis using h by simp
qed

text \<open>
  The claim as stated fails. On the session with a socket that is still connecting a
  chunk of 48000 bytes loses its first frame to the send that throws, and the second
  frame stays in the buffer: 24000 bytes, a whole frame, unsent.
\<close>

theorem frame_left_counterexample:
  "openaiWs reinitSession \<and> isSessionActive reinitSession
   \<and> length (audioBuffer (streamAudioToOpenAI 2000 (Audio (replicate 48000 0)) reinitSession))
       = 24000
   \<and> sentBy reinitSession (streamAudioToOpenAI 2000 (Audio (replicate 48000 0)) reinitSession)
       = []"
  by (simp add: reinitSession_eq streamAudioToOpenAI_def sendChunks_connecting CHUNK_BYTES_eq
      sentBy_def)

section \<open>The claims about the commit scheduler\<close>

text \<open>
  Claim C3. When more than 2000 ms have passed since the last commit but the bytes sent
  since the last commit, the remainder counted as flushed, stay below the floor of 4800
  bytes (\<open>minRequiredBytes\<close>), the auto-commit block does nothing: the session is left as
  it is, so no commit and nothing else is sent and no response is requested. (Such a
  remainder is below \<open>MIN_BUFFER_SIZE\<close>, so the block is not entered.)
\<close>

theorem scheduler_idle_below_floor:
  "now - lastCommitTime s > 2000 \<Longrightarrow>
   totalAudioSent s + length (audioBuffer s) < minRequiredBytes \<Longrightarrow>
   autoCommit now s = s \<and> sentBy s (autoCommit now s) = [] \<and> minRequiredBytes = 4800"
  by (simp add: autoCommit_def autoCommitBlock_def sentBy_def MIN_BUFFER_SIZE_eq
      minRequiredBytes_eq)

theorem scheduler_idle_below_floor_witness:
  "(3000::int) - lastCommitTime (activeSession\<lparr>audioBuffer := [1, 2, 3]\<rparr>) > 2000
   \<and> totalAudioSent (activeSession\<lparr>audioBuffer := [1, 2, 3]\<rparr>)
        + length (audioBuffer (activeSession\<lparr>audioBuffer := [1, 2, 3]\<rparr>)) < minRequiredBytes
   \<and> autoCommit 3000 (activeSession\<lparr>audioBuffer := [1, 2, 3]\<rparr>)
        = activeSession\<lparr>audioBuffer := [1, 2, 3]\<rparr>"
  using scheduler_idle_below_floor [of 3000 "activeSession\<lparr>audioBuffer := [1, 2, 3]\<rparr>"]
  by (simp add: activeSession_eq minRequiredBytes_eq)

text \<open>
  Claim C4. No handler sends \<^verbatim>\<open>response.create\<close> while \<^verbatim>\<open>responseInProgress\<close> is true: in
  every state in which the flag is set, whatever event comes next (an audio chunk, a
  stop, a remote event, a close, the timer), the messages that its handler sends to the
  remote peer contain no \<^verbatim>\<open>response.create\<close>. The state is arbitrary, so this holds in
  every state that a run can reach.
\<close>

theorem no_create_while_in_progress:
  "responseInProgress s \<Longrightarrow> ResponseCreate \<notin> set (sentBy s (step e s))"
proof (cases e)
  case (ClientMessage now m)
  assume rip: "responseInProgress s"
  show ?thesis
  proof (cases m)
    case (Malformed x)
    then show ?thesis using ClientMessage
      by (simp add: onClientMessage_def wsSend_def sentBy_def)
  next
    case (Data d)
    then show ?thesis
      using ClientMessage stream_no_create [OF rip] stopSession_no_create [of s]
      by (simp add: onClientMessage_def initializeOpenAISession_def wsSend_def sentBy_def)
  qed
next
  case ClientClose
  then show ?thesis using stopSession_no_create [of s]
    by (simp add: onClientClose_def sentBy_def)
next
  case OpenaiOpen
  then show ?thesis by (simp add: onOpenaiOpen_def wsSend_def openaiSend_def sentBy_def)
next
  case (OpenaiMessage ev)
  then show ?thesis
    by (cases "(ev, s)" rule: onOpenaiMessage.cases) (auto simp: wsSend_def sentBy_def)
next
  case OpenaiClosing
  then show ?thesis by (simp add: closeSocket_def sentBy_def)
next
  case OpenaiClose
  then show ?thesis by (simp add: onOpenaiClose_def sentBy_def)
next
  case OpenaiError
  then show ?thesis by (simp add: onOpenaiError_def closeSocket_def wsSend_def sentBy_def)
next
  case StaleOpen
  then show ?thesis
    by (cases "readyState s")
       (simp_all add: onOpenaiOpen_def wsSend_def openaiSend_def sentBy_def)
next
  case StaleClose
  then show ?thesis by (simp add: onOpenaiClose_def sentBy_def)
next
  case StaleError
  then show ?thesis by (simp add: onOpenaiError_def wsSend_def sentBy_def)
next
  case StopTimeout
  then show ?thesis by (simp add: onStopTimeout_def closeSocket_def sentBy_def)
qed

text \<open>
  The witness: a response is in progress, 9600 bytes are buffered and the timer has
  elapsed. The next chunk makes the block flush and commit, and no response is requested.
\<close>

theorem no_create_while_in_progress_witness:
  "responseInProgress
     (activeSession\<lparr>responseInProgress := True, audioBuffer := replicate 9600 0\<rparr>)
   \<and> sentBy (activeSession\<lparr>responseInProgress := True, audioBuffer := replicate 9600 0\<rparr>)
       (step (ClientMessage 3000 (audioMessage [1]))
          (activeSession\<lparr>responseInProgress := True, audioBuffer := replicate 9600 0\<rparr>))
     = [InputAudioBufferAppend (replicate 9600 0 @ [1]), InputAudioBufferCommit]"
  using no_create_while_in_progress
    [of "activeSession\<lparr>responseInProgress := True, audioBuffer := replicate 9600 0\<rparr>"
      "ClientMessage 3000 (audioMessage [1])"]
  by (simp add: activeSession_eq audioMessage_def onClientMessage_def streamAudioToOpenAI_def
      sendChunks.simps CHUNK_BYTES_eq MIN_BUFFER_SIZE_eq minRequiredBytes_eq sentBy_def
      autoCommitBlock_def createResponse_def commitIfEnough_def sendRemaining_def
      openaiSend_def)

text \<open>
  Claim C5. The counter \<^verbatim>\<open>totalAudioSent\<close> should be reset to zero at every commit, the
  final commit of \<^verbatim>\<open>stopSession\<close> included. The auto-commit path does so
  (\<open>autoCommit_counter\<close>); \<^verbatim>\<open>stopSession\<close> does not. In the run below a client starts a
  session, sends 5000 bytes and stops: the final commit is sent and the counter still
  reads 5000.
\<close>

theorem stop_commit_keeps_counter:
  "toOpenAI (run [ClientMessage 1000 initMessage, OpenaiOpen,
       ClientMessage 1500 (audioMessage (replicate 5000 0)), ClientMessage 1600 stopMessage]
       newSession)
     = [SessionUpdate, InputAudioBufferAppend (replicate 5000 0), InputAudioBufferCommit]
   \<and> totalAudioSent (run [ClientMessage 1000 initMessage, OpenaiOpen,
       ClientMessage 1500 (audioMessage (replicate 5000 0)), ClientMessage 1600 stopMessage]
       newSession) = 5000"
  by (simp add: initMessage_def audioMessage_def stopMessage_def newSession_def
      onClientMessage_def initializeOpenAISession_def onOpenaiOpen_def
      streamAudioToOpenAI_def sendChunks.simps autoCommitBlock_def stopSession_def sendFinal_def
      finalCommit_def wsSend_def openaiSend_def CHUNK_BYTES_eq MIN_BUFFER_SIZE_eq
      minRequiredBytes_eq)

text \<open>
  Claim C6, as the code has it. On a stop of an active session whose remote socket is
  open, the logic runs once: the retained remainder, if there is one, is sent; a commit
  is sent if and only if the bytes sent since the last commit, the remainder included,
  reach 4800; no response is requested and the flag \<^verbatim>\<open>responseInProgress\<close> is left as it
  was. With 3000 bytes in all no commit is sent (the witness).
\<close>

theorem stop_flushes_and_commits:
  "openaiWs s \<Longrightarrow> readyState s = OPEN \<Longrightarrow> isSessionActive s \<Longrightarrow>
   sentBy s (stopSession s) =
     (if audioBuffer s \<noteq> [] then [InputAudioBufferAppend (audioBuffer s)] else [])
     @ (if totalAudioSent s + length (audioBuffer s) \<ge> 4800
        then [InputAudioBufferCommit] else [])
   \<and> (InputAudioBufferCommit \<in> set (sentBy s (stopSession s))
        \<longleftrightarrow> totalAudioSent s + length (audioBuffer s) \<ge> 4800)
   \<and> ResponseCreate \<notin> set (sentBy s (stopSession s))
   \<and> responseInProgress (stopSession s) = responseInProgress s"
  by (simp add: stopSession_open sentBy_def minRequiredBytes_eq)

theorem stop_flushes_and_commits_witness:
  "openaiWs (activeSession\<lparr>totalAudioSent := 3000\<rparr>)
   \<and> readyState (activeSession\<lparr>totalAudioSent := 3000\<rparr>) = OPEN
   \<and> isSessionActive (activeSession\<lparr>totalAudioSent := 3000\<rparr>)
   \<and> sentBy (activeSession\<lparr>totalAudioSent := 3000\<rparr>)
        (stopSession (activeSession\<lparr>totalAudioSent := 3000\<rparr>)) = []"
  using stop_flushes_and_commits [of "activeSession\<lparr>totalAudioSent := 3000\<rparr>"]
  by (simp add: activeSession_eq)

text \<open>
  The claim as stated fails, at two inputs. On the session that buffered 5000 bytes and
  then got a second \<^verbatim>\<open>init\<close>, the flush of the stop throws on the socket that is still
  connecting and the \<^verbatim>\<open>catch\<close> of lines 353 to 361 tears the session down: the remainder
  is not sent, no commit is sent though 5000 bytes reach the floor, and the client is not
  told (\<open>stopSession_connecting\<close>). And on the session whose remote socket has closed
  after one frame, the guard of line 304 makes the stop a no-op: no commit is sent though
  the counter reads 24000.
\<close>

theorem stop_sends_nothing_counterexample:
  "openaiWs reinitBuffered \<and> isSessionActive reinitBuffered
   \<and> audioBuffer reinitBuffered = replicate 5000 0
   \<and> sentBy reinitBuffered (stopSession reinitBuffered) = []
   \<and> toldBy reinitBuffered (stopSession reinitBuffered) = []
   \<and> totalAudioSent closedAfterFrame = 24000
   \<and> sentBy closedAfterFrame (stopSession closedAfterFrame) = []"
  by (simp add: reinitBuffered_eq closedAfterFrame_eq stopSession_def sendFinal_def
      openaiSend_def closeSocket_def sentBy_def toldBy_def)

section \<open>The claims about the client's messages\<close>

text \<open>
  Claim C10. An audio message that arrives while there is no remote connection or the
  session is not active is dropped: the handler leaves the session as it is, so nothing
  is buffered, no counter changes, nothing is sent to the remote peer and nothing, in
  particular no error, is sent to the client. The guard of \<^verbatim>\<open>streamAudioToOpenAI\<close> itself
  does the same.
\<close>

theorem audio_dropped_when_inactive:
  "\<not> openaiWs s \<or> \<not> isSessionActive s \<Longrightarrow> mtype d = ''audio'' \<Longrightarrow>
   onClientMessage now (Data d) s = s \<and> streamAudioToOpenAI now a s = s"
  by (auto simp: onClientMessage_def streamAudioToOpenAI_def)

theorem audio_dropped_when_inactive_witness:
  "\<not> openaiWs newSession \<and> \<not> isSessionActive newSession
   \<and> onClientMessage 5 (audioMessage [1, 2]) newSession = newSession"
  using audio_dropped_when_inactive
    [of newSession "\<lparr>mtype = ''audio'', sessionId = [], audio = Audio [1, 2]\<rparr>" 5]
  by (simp add: newSession_def audioMessage_def)

text \<open>
  Claim C9, as the code has it. A client message that cannot be parsed is answered with
  an error message to the client that sent it, and nothing else of the session changes.
  A message that parses and whose type is none of \<^verbatim>\<open>init\<close>, \<^verbatim>\<open>audio\<close> and \<^verbatim>\<open>stop\<close> is ignored:
  \<^verbatim>\<open>src/server.js\<close> leaves the session as it is, the version of \<^verbatim>\<open>part_001\<close> prints two
  console lines; neither sends the client anything. In both cases the sessions of the other
  connections are untouched.
\<close>

theorem malformed_reported_unknown_ignored:
  "onClientMessage now (Malformed e) s = s\<lparr>toClient := toClient s @ [ErrorMsg e]\<rparr>
   \<and> (mtype d \<noteq> ''init'' \<and> mtype d \<noteq> ''audio'' \<and> mtype d \<noteq> ''stop''
        \<longrightarrow> onClientMessage now (Data d) s = s)
   \<and> (srv c = Some s \<and> c' \<noteq> c \<longrightarrow> deliver c now m srv c' = srv c')
   \<and> onClientMessage2 (Malformed e) t
        = t\<lparr>toClient2 := toClient2 t @ [ErrorMsg e],
             console := console t @ [ErrProcessingMessage e]\<rparr>
   \<and> (mtype d \<noteq> ''init'' \<and> mtype d \<noteq> ''audio'' \<and> mtype d \<noteq> ''stop''
        \<longrightarrow> onClientMessage2 (Data d) t
             = t\<lparr>console := console t @ [LogReceivedMessageType (mtype d),
                                           LogUnknownMessageType (mtype d)]\<rparr>)"
  by (simp add: onClientMessage_def onClientMessage2_def wsSend_def wsSend2_def consoleLog_def
      deliver_def)

theorem malformed_reported_unknown_ignored_witness:
  "onClientMessage 0 (Malformed ''Unexpected end of JSON input'') activeSession
     = activeSession\<lparr>toClient := [SessionReady, ErrorMsg ''Unexpected end of JSON input'']\<rparr>
   \<and> onClientMessage 0 pingMessage activeSession = activeSession"
  using malformed_reported_unknown_ignored [of 0 "''Unexpected end of JSON input''"
      activeSession "\<lparr>mtype = ''ping'', sessionId = [], audio = NoAudio\<rparr>"]
  by (simp add: activeSession_eq pingMessage_def)

text \<open>
  The claim as stated fails: a message of the unknown type \<^verbatim>\<open>ping\<close> on an active session
  makes the server send the client nothing.
\<close>

theorem unknown_type_counterexample:
  "toldBy activeSession (onClientMessage 0 pingMessage activeSession) = []"
  by (simp add: toldBy_def onClientMessage_def pingMessage_def activeSession_eq)

section \<open>The claims about the event relay\<close>

lemmas relay_defs = onOpenaiMessage2_def consoleLog_def wsSend2_def

text \<open>
  Claim C2, as the accumulating relay has it. After a response-created event and three audio
  deltas nothing has been sent to the client. The response-done event then sends one
  \<^verbatim>\<open>translated_audio\<close> whose payload is the three byte sequences in order, provided that
  at least one delta had a non-empty string; when all three were empty or missing it
  sends nothing (the test \<^verbatim>\<open>audioChunks.length > 0\<close> of line 610). In both cases
  \<^verbatim>\<open>responseInProgress\<close> is false afterwards. (The relay of \<^verbatim>\<open>src/server.js\<close> has no
  accumulator: see \<open>server_js_forwards_each_delta\<close>.)
\<close>

theorem relay_one_clip:
  "toClient2 (relay [ResponseCreated2, ResponseAudioDelta2 a, ResponseAudioDelta2 b,
                     ResponseAudioDelta2 c] s) = toClient2 s
   \<and> toClient2 (relay [ResponseCreated2, ResponseAudioDelta2 a, ResponseAudioDelta2 b,
                       ResponseAudioDelta2 c, ResponseDone2] s)
       = toClient2 s @
           (if a = None \<and> b = None \<and> c = None then []
            else [TranslatedAudio (deltaBytes a @ deltaBytes b @ deltaBytes c)])
   \<and> \<not> responseInProgress2 (relay [ResponseCreated2, ResponseAudioDelta2 a,
         ResponseAudioDelta2 b, ResponseAudioDelta2 c, ResponseDone2] s)"
  by (cases a; cases b; cases c) (simp_all add: relay_defs)

theorem relay_one_clip_witness:
  "toClient2 (relay [ResponseCreated2, ResponseAudioDelta2 (Some [1, 2]),
         ResponseAudioDelta2 None, ResponseAudioDelta2 (Some [3]), ResponseDone2] newSession2)
     = [TranslatedAudio [1, 2, 3]]"
  using relay_one_clip [of "Some [1, 2]" None "Some [3]" newSession2]
  by (simp add: newSession2_def)

text \<open>
  The claim as stated fails when the three deltas carry the empty byte sequence: no
  \<^verbatim>\<open>translated_audio\<close> is sent at all, where the claim has exactly one.
\<close>

theorem relay_empty_deltas_counterexample:
  "filter isTranslatedAudio
     (toClient2 (relay [ResponseCreated2, ResponseAudioDelta2 None, ResponseAudioDelta2 None,
        ResponseAudioDelta2 None, ResponseDone2] newSession2)) = []"
  by (simp add: relay_defs newSession2_def)

text \<open>
  Claim C7, as the code has it. A response-created event is handled in the same way
  whether or not a response is in progress: the flag is set, the accumulating relay empties
  its accumulators and prints the two console lines of any response-created event, and
  the client is sent nothing. A second response-created therefore discards the audio
  accumulated for the first: the \<^verbatim>\<open>translated_audio\<close> of the next response-done carries
  only the deltas that came after it.
\<close>

theorem second_created_accepted:
  "onOpenaiMessage2 ResponseCreated2 s
     = s\<lparr>responseInProgress2 := True, currentTranslation := [], audioChunks := [],
         console := console s @ [LogOpenAIMessageType ''response.created'', LogCreatingResponse]\<rparr>
   \<and> toClient2 (relay [ResponseCreated2, ResponseAudioDelta2 (Some a), ResponseCreated2,
          ResponseAudioDelta2 (Some b), ResponseDone2] s)
       = toClient2 s @ [TranslatedAudio b]
   \<and> onOpenaiMessage ResponseCreated t = t\<lparr>responseInProgress := True\<rparr>"
  by (simp add: relay_defs)

theorem second_created_accepted_witness:
  "toClient2 (relay [ResponseCreated2, ResponseAudioDelta2 (Some [1]), ResponseCreated2,
          ResponseAudioDelta2 (Some [2]), ResponseDone2] newSession2)
       = [TranslatedAudio [2]]"
  using second_created_accepted [of newSession2 "[1]" "[2]", THEN conjunct2, THEN conjunct1]
  by (simp add: newSession2_def)

text \<open>
  The claim as stated fails: with a response in progress and one chunk accumulated, a
  second response-created empties the accumulator, so it is neither rejected nor
  ignored; the client is sent nothing, and the console lines it prints are those of the
  first, accepted, event.
\<close>

theorem second_created_counterexample:
  "responseInProgress2 (relay [ResponseCreated2, ResponseAudioDelta2 (Some [1])] newSession2)
   \<and> audioChunks (relay [ResponseCreated2, ResponseAudioDelta2 (Some [1])] newSession2) = [[1]]
   \<and> audioChunks (relay [ResponseCreated2, ResponseAudioDelta2 (Some [1]), ResponseCreated2]
        newSession2) = []
   \<and> toClient2 (relay [ResponseCreated2, ResponseAudioDelta2 (Some [1]), ResponseCreated2]
        newSession2) = []
   \<and> drop (length (console (relay [ResponseCreated2, ResponseAudioDelta2 (Some [1])]
                               newSession2)))
        (console (relay [ResponseCreated2, ResponseAudioDelta2 (Some [1]), ResponseCreated2]
           newSession2))
       = console (relay [ResponseCreated2] newSession2)"
  by (simp add: relay_defs newSession2_def)

end
